theory Spec2Isabelle
  imports Complex_Main "HOL-Library.Monad_Syntax" "HOL-Library.Multiset" "HOL-Library.AList"
begin

section \<open>JavaScript values\<close>

text \<open>
  The class \<^verbatim>\<open>BasePlot\<close> of \<^verbatim>\<open>src/Base/plot.ts\<close> works on untyped
  configuration objects.  They are embedded as a datatype of JavaScript values.  An
  object is the list of its own enumerable properties in insertion order.  A function
  value carries its \<^verbatim>\<open>name\<close> property and a tag that stands for its
  identity.

  Numbers are the reals extended by the two infinities and by NaN; the rounding of
  IEEE doubles is not part of the model.
\<close>

datatype jsnum = NaN | NegInf | Fin real | PosInf

datatype jsval =
    JUndefined
  | JNull
  | JBool bool
  | JNum jsnum
  | JStr string
  | JArr "jsval list"
  | JObj "(string \<times> jsval) list"
  | JFun string nat

type_synonym props = "(string \<times> jsval) list"

fun num_neg :: "jsnum \<Rightarrow> jsnum" where
  "num_neg NaN = NaN"
| "num_neg NegInf = PosInf"
| "num_neg PosInf = NegInf"
| "num_neg (Fin a) = Fin (- a)"

fun num_add :: "jsnum \<Rightarrow> jsnum \<Rightarrow> jsnum" where
  "num_add (Fin a) (Fin b) = Fin (a + b)"
| "num_add NaN _ = NaN"
| "num_add _ NaN = NaN"
| "num_add PosInf NegInf = NaN"
| "num_add NegInf PosInf = NaN"
| "num_add PosInf _ = PosInf"
| "num_add NegInf _ = NegInf"
| "num_add _ PosInf = PosInf"
| "num_add _ NegInf = NegInf"

definition num_sub :: "jsnum \<Rightarrow> jsnum \<Rightarrow> jsnum" where
  "num_sub a b = num_add a (num_neg b)"

text \<open>The comparison \<^verbatim>\<open>a < b\<close>; it is false as soon as one side is NaN.\<close>

fun num_lt :: "jsnum \<Rightarrow> jsnum \<Rightarrow> bool" where
  "num_lt NaN _ = False"
| "num_lt _ NaN = False"
| "num_lt (Fin a) (Fin b) = (a < b)"
| "num_lt NegInf NegInf = False"
| "num_lt NegInf _ = True"
| "num_lt _ NegInf = False"
| "num_lt PosInf _ = False"
| "num_lt _ PosInf = True"

text \<open>The comparison \<^verbatim>\<open>a >= b\<close>.\<close>

fun num_ge :: "jsnum \<Rightarrow> jsnum \<Rightarrow> bool" where
  "num_ge NaN _ = False"
| "num_ge _ NaN = False"
| "num_ge a b = (\<not> num_lt a b)"

text \<open>\<^verbatim>\<open>Math.min\<close> and \<^verbatim>\<open>Math.max\<close> of two arguments.\<close>

fun math_min :: "jsnum \<Rightarrow> jsnum \<Rightarrow> jsnum" where
  "math_min NaN _ = NaN"
| "math_min _ NaN = NaN"
| "math_min a b = (if num_lt b a then b else a)"

fun math_max :: "jsnum \<Rightarrow> jsnum \<Rightarrow> jsnum" where
  "math_max NaN _ = NaN"
| "math_max _ NaN = NaN"
| "math_max a b = (if num_lt a b then b else a)"

text \<open>
  The rounding of doubles.  \<open>rne\<close> rounds a real to the nearest integer, a tie
  to the even one.  \<open>dbl\<close> rounds a real to the nearest number with a significand
  of 53 bits and an exponent of at least -1022, and to an infinity from
  \<open>2 ^ 1024\<close> on: it is the result that an arithmetic operation of the language
  delivers for the exact result \<open>x\<close>.  \<open>fl\<close> lifts it to the extended numbers.
\<close>

definition rne :: "real \<Rightarrow> int" where
  "rne x =
     (let f = \<lfloor>x\<rfloor>
      in if x - of_int f < 1 / 2 then f
         else if 1 / 2 < x - of_int f then f + 1
         else if even f then f else f + 1)"

definition dbl :: "real \<Rightarrow> jsnum" where
  "dbl x =
     (if x = 0 then Fin 0
      else let q = 2 powi (max \<lfloor>log 2 \<bar>x\<bar>\<rfloor> (- 1022) - 52);
               r = of_int (rne (x / q)) * q
           in if 2 ^ 1024 \<le> \<bar>r\<bar> then (if 0 < x then PosInf else NegInf) else Fin r)"

fun fl :: "jsnum \<Rightarrow> jsnum" where
  "fl (Fin x) = dbl x"
| "fl a = a"

text \<open>The double that the literal \<^verbatim>\<open>0.1\<close> denotes.\<close>

definition tenth :: real where
  "tenth = 3602879701896397 / 2 ^ 55"

text \<open>
  The conversion of an operand of an arithmetic operator to a number.  The parsing of
  numeric strings and the conversion of objects are not modelled: such operands give
  NaN here.
\<close>

fun to_number :: "jsval \<Rightarrow> jsnum" where
  "to_number (JNum n) = n"
| "to_number JNull = Fin 0"
| "to_number (JBool b) = (if b then Fin 1 else Fin 0)"
| "to_number _ = NaN"

definition js_sub :: "jsval \<Rightarrow> jsval \<Rightarrow> jsval" where
  "js_sub a b = JNum (num_sub (to_number a) (to_number b))"

text \<open>The operator \<^verbatim>\<open>+\<close> on numbers (string concatenation is not modelled).\<close>

definition js_add :: "jsval \<Rightarrow> jsval \<Rightarrow> jsval" where
  "js_add a b = JNum (num_add (to_number a) (to_number b))"

text \<open>Truthiness, as tested by \<^verbatim>\<open>if (v)\<close>, \<^verbatim>\<open>!v\<close>, \<^verbatim>\<open>a && b\<close> and \<^verbatim>\<open>c ? a : b\<close>.\<close>

fun truthy :: "jsval \<Rightarrow> bool" where
  "truthy JUndefined = False"
| "truthy JNull = False"
| "truthy (JBool b) = b"
| "truthy (JNum n) = (n \<noteq> NaN \<and> n \<noteq> Fin 0)"
| "truthy (JStr s) = (s \<noteq> [])"
| "truthy _ = True"

text \<open>
  Reading a property.  \<open>own v k\<close> is \<^verbatim>\<open>v[k]\<close> for a value that is known not
  to be \<^verbatim>\<open>undefined\<close> or \<^verbatim>\<open>null\<close>; \<open>read v k\<close> is the
  general read, which throws a TypeError (the value \<open>None\<close>) on
  \<^verbatim>\<open>undefined\<close> and \<^verbatim>\<open>null\<close>.  Properties of primitives (such as the
  length of a string) are not modelled and read as \<^verbatim>\<open>undefined\<close>.
\<close>

fun own :: "jsval \<Rightarrow> string \<Rightarrow> jsval" where
  "own (JObj kvs) k = (case map_of kvs k of Some v \<Rightarrow> v | None \<Rightarrow> JUndefined)"
| "own _ k = JUndefined"

fun read :: "jsval \<Rightarrow> string \<Rightarrow> jsval option" where
  "read JUndefined k = None"
| "read JNull k = None"
| "read v k = Some (own v k)"

text \<open>Reading an array element \<^verbatim>\<open>v[i]\<close>; out of range it is \<^verbatim>\<open>undefined\<close>.\<close>

fun index :: "jsval \<Rightarrow> nat \<Rightarrow> jsval option" where
  "index JUndefined i = None"
| "index JNull i = None"
| "index (JArr xs) i = Some (if i < length xs then xs ! i else JUndefined)"
| "index (JStr s) i = Some (if i < length s then JStr [s ! i] else JUndefined)"
| "index _ i = Some JUndefined"

text \<open>
  Writing a property \<^verbatim>\<open>o[k] = v\<close> of an object: an existing key keeps its
  place, a new key goes to the end.
\<close>

definition set_prop :: "string \<Rightarrow> jsval \<Rightarrow> jsval \<Rightarrow> jsval" where
  "set_prop k v ob = (case ob of JObj kvs \<Rightarrow> JObj (AList.update k v kvs) | _ \<Rightarrow> ob)"

section \<open>The utility library\<close>

text \<open>
  The functions of the package \<^verbatim>\<open>@antv/util\<close> that the class calls. The package
  is an external dependency; the definitions follow its documented behaviour.
\<close>

text \<open>
  \<^verbatim>\<open>_.mix(dist, src)\<close>, also exported as \<^verbatim>\<open>_.assign\<close>: copies every own
  property of the source into the target, except the key \<^verbatim>\<open>constructor\<close> and
  the properties whose value is \<^verbatim>\<open>undefined\<close>.
\<close>

fun mix1 :: "props \<Rightarrow> props \<Rightarrow> props" where
  "mix1 dst [] = dst"
| "mix1 dst ((k, v) # src) =
     mix1 (if k = ''constructor'' \<or> v = JUndefined then dst else AList.update k v dst) src"

text \<open>The decimal digits of an index, as the key under which a loop over keys sees it.\<close>

fun show_nat :: "nat \<Rightarrow> string" where
  "show_nat n =
     (if n < 10 then [char_of (48 + n)] else show_nat (n div 10) @ [char_of (48 + n mod 10)])"

text \<open>
  The own enumerable properties that \<^verbatim>\<open>for (key in src)\<close> visits: those of an
  object, the elements of an array and the characters of a string under their
  indices, none for any other value.
\<close>

fun own_props :: "jsval \<Rightarrow> props" where
  "own_props (JObj kvs) = kvs"
| "own_props (JArr xs) = map (\<lambda>(i, v). (show_nat i, v)) (enumerate 0 xs)"
| "own_props (JStr cs) = map (\<lambda>(i, c). (show_nat i, JStr [c])) (enumerate 0 cs)"
| "own_props _ = []"

text \<open>The properties of a plain object; any other value counts as having none.\<close>

fun plain_props :: "jsval \<Rightarrow> props" where
  "plain_props (JObj kvs) = kvs"
| "plain_props _ = []"

text \<open>
  Mixing into a target that is not an object.  An array or a function takes the
  properties, which the model does not keep: the target comes back as it is.  On
  \<^verbatim>\<open>undefined\<close>, \<^verbatim>\<open>null\<close> and the other primitives nothing happens when
  there is nothing to copy, and the assignment to a property throws in strict code.
\<close>

definition mix :: "jsval \<Rightarrow> jsval \<Rightarrow> jsval option" where
  "mix dst src =
     (if \<not> truthy src then Some dst
      else case dst of
        JObj d \<Rightarrow> Some (JObj (mix1 d (own_props src)))
      | JArr xs \<Rightarrow> Some dst
      | JFun f i \<Rightarrow> Some dst
      | _ \<Rightarrow> if mix1 [] (own_props src) = [] then Some dst else None)"

text \<open>
  \<^verbatim>\<open>_.deepMix(dist, src)\<close>: plain objects are merged recursively down to five
  levels and assigned as they are below, arrays are copied, \<^verbatim>\<open>undefined\<close> is
  skipped, every other value is assigned.  The first argument counts the levels that
  are left.
\<close>

fun deepMix1 :: "nat \<Rightarrow> props \<Rightarrow> props \<Rightarrow> props" where
  "deepMix1 n dst [] = dst"
| "deepMix1 n dst ((k, v) # src) =
     deepMix1 n
       (case v of
          JObj ob \<Rightarrow>
            (case n of
               0 \<Rightarrow> AList.update k v dst
             | Suc m \<Rightarrow> AList.update k (JObj (deepMix1 m (plain_props (own (JObj dst) k)) ob)) dst)
        | JUndefined \<Rightarrow> dst
        | _ \<Rightarrow> AList.update k v dst)
       src"

definition MAX_MIX_LEVEL :: nat where
  "MAX_MIX_LEVEL = 5"

text \<open>\<^verbatim>\<open>_.deepMix(dist, a, b, ...)\<close>: the sources are mixed in one after the other.\<close>

definition deepMix :: "props \<Rightarrow> jsval list \<Rightarrow> props" where
  "deepMix dst srcs = foldl (\<lambda>d src. deepMix1 MAX_MIX_LEVEL d (own_props src)) dst srcs"

text \<open>
  \<^verbatim>\<open>_.get(obj, path)\<close>: follows the keys of a path while the value is truthy;
  the result is \<^verbatim>\<open>undefined\<close> when the path is not exhausted.
\<close>

fun get_path :: "jsval \<Rightarrow> string list \<Rightarrow> jsval" where
  "get_path v [] = v"
| "get_path v (k # ks) = (if truthy v then get_path (own v k) ks else JUndefined)"

text \<open>Splitting a path at the dots, as \<^verbatim>\<open>key.split('.')\<close> does.\<close>

fun split_dots :: "string \<Rightarrow> string \<Rightarrow> string list" where
  "split_dots acc [] = [rev acc]"
| "split_dots acc (c # cs) =
     (if c = CHR ''.'' then rev acc # split_dots [] cs else split_dots (c # acc) cs)"

definition get :: "jsval \<Rightarrow> string \<Rightarrow> jsval" where
  "get v path = get_path v (split_dots [] path)"

text \<open>
  \<^verbatim>\<open>_.mapValues(object, f)\<close>, with \<^verbatim>\<open>f(value, key)\<close>, over the keys of
  an object or an array; any other value gives the empty object.
\<close>

definition mapValues :: "jsval \<Rightarrow> (jsval \<Rightarrow> string \<Rightarrow> jsval) \<Rightarrow> jsval" where
  "mapValues ob f =
     JObj (fold (\<lambda>(k, v) r. AList.update k (f v k) r)
                (case ob of JStr cs \<Rightarrow> [] | _ \<Rightarrow> own_props ob) [])"


fun isFunction :: "jsval \<Rightarrow> bool" where
  "isFunction (JFun _ _) = True"
| "isFunction _ = False"


section \<open>The collaborators of the class\<close>

text \<open>
  \<^verbatim>\<open>BBox\<close> of the package \<^verbatim>\<open>@antv/g\<close>, built from a corner, a width and a
  height.
\<close>

record bbox =
  minX :: jsnum
  minY :: jsnum
  maxX :: jsnum
  maxY :: jsnum
  width :: jsnum
  height :: jsnum

definition BBox :: "jsnum \<Rightarrow> jsnum \<Rightarrow> jsnum \<Rightarrow> jsnum \<Rightarrow> bbox" where
  "BBox x y w h =
     \<lparr>minX = x, minY = y, maxX = num_add x w, maxY = num_add y h, width = w, height = h\<rparr>"

definition bbox_val :: "bbox \<Rightarrow> jsval" where
  "bbox_val b =
     JObj [(''minX'', JNum (minX b)), (''minY'', JNum (minY b)), (''maxX'', JNum (maxX b)),
           (''maxY'', JNum (maxY b)), (''width'', JNum (width b)), (''height'', JNum (height b))]"

text \<open>The object literal that \<^verbatim>\<open>_getViewMargin\<close> returns.\<close>

record margin =
  m_minX :: jsnum
  m_maxX :: jsnum
  m_minY :: jsnum
  m_maxY :: jsnum

text \<open>
  Modelled from the spec: the text component \<^verbatim>\<open>components/description\<close> is not
  among the sources.  The spec describes it as a factory that accepts position, width,
  style and alignment and returns an object with a measured bounding box and a
  disposal operation.  The measurement is a parameter of the model.
\<close>

record text_cfg =
  leftMargin :: jsval
  topMargin :: jsval
  td_text :: jsval
  style :: jsval
  wrapperWidth :: jsval
  td_theme :: jsval
  alignWithAxis :: jsval

record text_description =
  td_cfg :: text_cfg
  td_destroyed :: bool

definition TextDescription :: "text_cfg \<Rightarrow> text_description" where
  "TextDescription c = \<lparr>td_cfg = c, td_destroyed = False\<rparr>"

definition td_destory :: "text_description \<Rightarrow> text_description" where
  "td_destory t = t\<lparr>td_destroyed := True\<rparr>"

text \<open>
  \<^verbatim>\<open>G2.View\<close> of the package \<^verbatim>\<open>@antv/g2\<close>: the drawable view.  It keeps
  what it was built from, the listeners bound to it, the arguments of the render calls
  it has received, and whether it has been destroyed.  \<^verbatim>\<open>on\<close> binds one
  listener and \<^verbatim>\<open>off\<close> removes one binding of the given listener.  Destroying
  the view is modelled as setting the flag only, so that nothing proved about the
  bindings relies on the view clearing them itself.
\<close>

record view =
  v_width :: jsnum
  v_height :: jsnum
  v_padding :: jsval
  v_data :: jsval
  v_theme :: jsval
  v_options :: jsval
  v_start_y :: jsnum
  v_end_x :: jsnum
  v_end_y :: jsnum
  listeners :: "(jsval \<times> jsval) list"
  v_renders :: "jsval list"
  v_destroyed :: bool

definition view_on :: "jsval \<Rightarrow> jsval \<Rightarrow> view \<Rightarrow> view" where
  "view_on ty h v = v\<lparr>listeners := listeners v @ [(ty, h)]\<rparr>"

definition view_off :: "jsval \<Rightarrow> jsval \<Rightarrow> view \<Rightarrow> view" where
  "view_off ty h v = v\<lparr>listeners := remove1 (ty, h) (listeners v)\<rparr>"

definition view_render :: "jsval \<Rightarrow> view \<Rightarrow> view" where
  "view_render arg v = v\<lparr>v_renders := v_renders v @ [arg]\<rparr>"

definition view_changeData :: "jsval \<Rightarrow> view \<Rightarrow> view" where
  "view_changeData d v = v\<lparr>v_data := d\<rparr>"

definition view_destroy :: "view \<Rightarrow> view" where
  "view_destroy v = v\<lparr>v_destroyed := True\<rparr>"

text \<open>
  Modelled from the spec: the canvas controller \<^verbatim>\<open>Base/controller/canvas\<close> is not
  among the sources.  The spec describes it as a provisioner exposing the pixel width
  and height and a surface with a background colour that can be attached and detached.
  The size it derives from the configuration is a parameter of the model.
\<close>

record canvas =
  c_width :: jsnum
  c_height :: jsnum
  backgroundColor :: jsval
  c_destroyed :: bool
  attached :: bool

text \<open>
  What the class takes from outside: the resolved theme of the theme controller
  (not among the sources; the spec has it supplied once per epoch), the canvas size,
  the text measurement, the padding measurement \<^verbatim>\<open>util/padding\<close> (not among the
  sources; by the spec it yields a concrete padding tuple), the table
  \<^verbatim>\<open>EVENT_MAP\<close> of \<^verbatim>\<open>util/event\<close>, and the abstract methods that a
  concrete chart supplies.  By the spec each of those hooks writes to the rendering
  configuration only, so a hook is a function from the properties and the
  configuration to the configuration.
\<close>

record env =
  theme :: jsval
  canvasSize :: "jsval \<Rightarrow> jsnum \<times> jsnum"
  measureText :: "text_cfg \<Rightarrow> bbox"
  getAutoPadding :: "view \<Rightarrow> jsval list \<Rightarrow> jsval \<Rightarrow> jsval list"
  EVENT_MAP :: props
  setDefaultG2Config :: "jsval \<Rightarrow> jsval \<Rightarrow> jsval"
  coord :: "jsval \<Rightarrow> jsval \<Rightarrow> jsval"
  scale :: "jsval \<Rightarrow> jsval \<Rightarrow> jsval"
  axis :: "jsval \<Rightarrow> jsval \<Rightarrow> jsval"
  addElements :: "jsval \<Rightarrow> jsval \<Rightarrow> jsval"
  annotation :: "jsval \<Rightarrow> jsval \<Rightarrow> jsval"
  animation :: "jsval \<Rightarrow> jsval \<Rightarrow> jsval"
  interactions :: "jsval \<Rightarrow> jsval \<Rightarrow> jsval"

definition getBBox :: "env \<Rightarrow> text_description \<Rightarrow> bbox" where
  "getBBox E t = measureText E (td_cfg t)"

section \<open>The class BasePlot\<close>

text \<open>
  The fields of an instance.  Methods whose name starts with an underscore in the
  source carry the prefix \<open>u_\<close> here.  The field \<open>retired\<close> is not in the
  source: it collects the views that \<^verbatim>\<open>updateConfig\<close> has disposed of, so that
  properties of them can be stated.
\<close>

record base_plot =
  destroyed :: bool
  initialProps :: jsval
  originalProps :: jsval
  config :: jsval
  eventHandlers :: "(jsval \<times> jsval) list"
  paddingComponents :: "jsval list"
  title :: "text_description option"
  description :: "text_description option"
  plot :: "view option"
  canvasController :: canvas
  retired :: "view list"

text \<open>An assignment \<^verbatim>\<open>o[k] = v\<close>; on a primitive it throws in strict code.\<close>

fun assign_prop :: "string \<Rightarrow> jsval \<Rightarrow> jsval \<Rightarrow> jsval option" where
  "assign_prop k v (JObj kvs) = Some (JObj (AList.update k v kvs))"
| "assign_prop k v (JArr xs) = Some (JArr xs)"
| "assign_prop k v (JFun f i) = Some (JFun f i)"
| "assign_prop k v _ = None"

text \<open>
  The expression \<^verbatim>\<open>props.padding ? props.padding : this._config.theme.padding\<close>,
  which \<^verbatim>\<open>_getPadding\<close> and \<^verbatim>\<open>_afterInit\<close> both evaluate.
\<close>

definition resolved_padding :: "base_plot \<Rightarrow> jsval option" where
  "resolved_padding s = do {
     p \<leftarrow> read (initialProps s) ''padding'';
     if truthy p then Some p else read (own (config s) ''theme'') ''padding''
   }"

definition u_getPadding :: "base_plot \<Rightarrow> jsval option" where
  "u_getPadding s = do {
     padding \<leftarrow> resolved_padding s;
     if padding = JStr ''auto''
     then Some (JArr [JNum (Fin 0), JNum (Fin 0), JNum (Fin 0), JNum (Fin 0)])
     else Some padding
   }"

definition u_getPanelRange :: "base_plot \<Rightarrow> bbox option" where
  "u_getPanelRange s = do {
     padding \<leftarrow> u_getPadding s;
     let w = c_width (canvasController s);
     let h = c_height (canvasController s);
     top \<leftarrow> index padding 0;
     right \<leftarrow> index padding 1;
     bottom \<leftarrow> index padding 2;
     left \<leftarrow> index padding 3;
     Some (BBox (to_number left) (to_number top)
             (num_sub (num_sub w (to_number left)) (to_number right))
             (num_sub (num_sub h (to_number top)) (to_number bottom)))
   }"

text \<open>One round of the loop over the boxes in \<^verbatim>\<open>_getViewMargin\<close>.\<close>

definition union_box :: "bbox \<Rightarrow> margin \<Rightarrow> margin" where
  "union_box box m =
     \<lparr>m_minX = math_min (minX box) (m_minX m), m_maxX = math_max (maxX box) (m_maxX m),
      m_minY = math_min (minY box) (m_minY m), m_maxY = math_max (maxY box) (m_maxY m)\<rparr>"

definition chrome_boxes :: "env \<Rightarrow> base_plot \<Rightarrow> bbox list" where
  "chrome_boxes E s =
     (case title s of Some t \<Rightarrow> [getBBox E t] | None \<Rightarrow> []) @
     (case description s of Some d \<Rightarrow> [getBBox E d] | None \<Rightarrow> [])"

text \<open>
  The box of \<^verbatim>\<open>_getViewMargin\<close> before its lower edge is constrained.  The
  addition of the bottom margin and the subtraction in the constraint are the
  operations on doubles, with their rounding, since what holds of the lower edge
  depends on it.
\<close>

definition united_margin :: "env \<Rightarrow> base_plot \<Rightarrow> margin option" where
  "united_margin E s = do {
     let b = fold union_box (chrome_boxes E s)
               \<lparr>m_minX = PosInf, m_maxX = NegInf, m_minY = PosInf, m_maxY = NegInf\<rparr>;
     if description s \<noteq> None
     then do {
       d \<leftarrow> read (own (config s) ''theme'') ''description'';
       bm \<leftarrow> read d ''bottom_margin'';
       Some (b\<lparr>m_maxY := fl (num_add (m_maxY b) (to_number bm))\<rparr>)
     }
     else Some b
   }"

definition u_getViewMargin :: "env \<Rightarrow> base_plot \<Rightarrow> margin option" where
  "u_getViewMargin E s =
     (if length (chrome_boxes E s) = 0
      then Some \<lparr>m_minX = Fin 0, m_maxX = Fin 0, m_minY = Fin 0, m_maxY = Fin 0\<rparr>
      else do {
        b \<leftarrow> united_margin E s;
        Some (if num_ge (m_maxY b) (c_height (canvasController s))
              then b\<lparr>m_maxY := fl (num_sub (c_height (canvasController s)) (Fin tenth))\<rparr>
              else b)
      })"

text \<open>
  Mixing deeply into a target that is not an object: as for \<^verbatim>\<open>_.mix\<close>, an
  array or a function comes back as it is, and a primitive throws as soon as there is
  something to copy.
\<close>

definition deepMix_into :: "jsval \<Rightarrow> jsval \<Rightarrow> jsval option" where
  "deepMix_into dst src =
     (case dst of
        JObj d \<Rightarrow> Some (JObj (deepMix1 MAX_MIX_LEVEL d (own_props src)))
      | JArr xs \<Rightarrow> Some dst
      | JFun f i \<Rightarrow> Some dst
      | _ \<Rightarrow> if deepMix1 MAX_MIX_LEVEL [] (own_props src) = [] then Some dst else None)"

text \<open>
  The theme is reached through the configuration, and \<^verbatim>\<open>_.mix\<close> and
  \<^verbatim>\<open>_.deepMix\<close> write into their first argument: a block of the theme that has
  been mixed into is the block the configuration's theme holds afterwards.
\<close>

definition store_theme_block :: "string \<Rightarrow> jsval \<Rightarrow> base_plot \<Rightarrow> base_plot" where
  "store_theme_block key block s =
     (let th = own (config s) ''theme''
      in if own th key = block then s
         else s\<lparr>config := set_prop ''theme'' (set_prop key block th) (config s)\<rparr>)"

definition u_setConfig :: "string \<Rightarrow> jsval \<Rightarrow> base_plot \<Rightarrow> base_plot option" where
  "u_setConfig key cfgv s =
     (if key = ''element''
      then (case own (config s) ''elements'' of
              JArr es \<Rightarrow> Some (s\<lparr>config := set_prop ''elements'' (JArr (es @ [cfgv])) (config s)\<rparr>)
            | _ \<Rightarrow> None)
      else if cfgv = JBool False
      then Some (s\<lparr>config := set_prop key (JBool False) (config s)\<rparr>)
      else do {
        section \<leftarrow> mix (own (config s) key) cfgv;
        Some (if own (config s) key = section then s
              else s\<lparr>config := set_prop key section (config s)\<rparr>)
      })"

definition u_tooltip :: "base_plot \<Rightarrow> base_plot option" where
  "u_tooltip s = do {
     let props = initialProps s;
     tt \<leftarrow> read props ''tooltip'';
     if truthy tt \<and> own tt ''visible'' = JBool False
     then u_setConfig ''tooltip'' (JBool False) s
     else do {
       s \<leftarrow> u_setConfig ''tooltip'' (JObj [(''crosshairs'', get props ''tooltip.crosshairs'')]) s;
       s \<leftarrow> u_setConfig ''tooltip'' (JObj [(''shared'', get props ''tooltip.shared'')]) s;
       if truthy tt \<and> truthy (own tt ''style'')
       then do {
         th \<leftarrow> read (config s) ''theme'';
         tth \<leftarrow> read th ''tooltip'';
         mixed \<leftarrow> deepMix_into tth (own tt ''style'');
         Some (store_theme_block ''tooltip'' mixed s)
       }
       else Some s
     }
   }"

definition u_legend :: "base_plot \<Rightarrow> base_plot option" where
  "u_legend s = do {
     let props = initialProps s;
     lg \<leftarrow> read props ''legend'';
     if truthy lg \<and> own lg ''visible'' = JBool False
     then u_setConfig ''legends'' (JBool False) s
     else do {
       s \<leftarrow> u_setConfig ''legends'' (JObj [(''position'', get props ''legend.position'')]) s;
       s \<leftarrow> u_setConfig ''legends'' (JObj [(''formatter'', get props ''legend.formatter'')]) s;
       s \<leftarrow> u_setConfig ''legends'' (JObj [(''offsetX'', get props ''legend.offsetX'')]) s;
       s \<leftarrow> u_setConfig ''legends'' (JObj [(''offsetY'', get props ''legend.offsetY'')]) s;
       let flipOption = get props ''legend.flipPage'';
       u_setConfig ''legends'' (JObj [(''flipPage'', flipOption)]) s
     }
   }"

text \<open>\<^verbatim>\<open>_.mix(theme.title, props.title.style)\<close> and its twin for the description.\<close>

definition mix_theme_block :: "string \<Rightarrow> jsval \<Rightarrow> base_plot \<Rightarrow> (jsval \<times> base_plot) option" where
  "mix_theme_block key st s = do {
     th \<leftarrow> read (config s) ''theme'';
     block \<leftarrow> mix (own th key) st;
     Some (block, store_theme_block key block s)
   }"

definition u_title :: "bbox \<Rightarrow> base_plot \<Rightarrow> base_plot option" where
  "u_title panelRange s = do {
     let props = initialProps s;
     let s = s\<lparr>title := None\<rparr>;
     pt \<leftarrow> read props ''title'';
     if truthy pt
     then do {
       theme \<leftarrow> read (config s) ''theme'';
       tt \<leftarrow> read theme ''title'';
       ta \<leftarrow> read tt ''alignWithAxis'';
       alignWithAxis \<leftarrow> mix (own pt ''alignWithAxis'') ta;
       let top = own tt ''top_margin'';
       (st, s) \<leftarrow> mix_theme_block ''title'' (own pt ''style'') s;
       let title = TextDescription
             \<lparr>leftMargin = JNum (minX panelRange), topMargin = top, td_text = own pt ''text'',
              style = st, wrapperWidth = JNum (width panelRange),
              td_theme = own (config s) ''theme'', alignWithAxis = alignWithAxis\<rparr>;
       Some (s\<lparr>title := Some title\<rparr>)
     }
     else Some s
   }"

definition u_description :: "env \<Rightarrow> bbox \<Rightarrow> base_plot \<Rightarrow> base_plot option" where
  "u_description E panelRange s = do {
     let props = initialProps s;
     let s = s\<lparr>description := None\<rparr>;
     pd \<leftarrow> read props ''description'';
     if truthy pd
     then do {
       let topMargin = (case title s of
                          Some t \<Rightarrow> num_add (minY (getBBox E t)) (height (getBBox E t))
                        | None \<Rightarrow> Fin 0);
       theme \<leftarrow> read (config s) ''theme'';
       pt \<leftarrow> read props ''title'';
       pa \<leftarrow> read pt ''alignWithAxis'';
       tt \<leftarrow> read theme ''title'';
       ta \<leftarrow> read tt ''alignWithAxis'';
       alignWithAxis \<leftarrow> mix pa ta;
       td \<leftarrow> read theme ''description'';
       top \<leftarrow> read td ''top_margin'';
       (st, s) \<leftarrow> mix_theme_block ''description'' (own pd ''style'') s;
       let description = TextDescription
             \<lparr>leftMargin = JNum (minX panelRange), topMargin = js_add (JNum topMargin) top,
              td_text = own pd ''text'', style = st, wrapperWidth = JNum (width panelRange),
              td_theme = own (config s) ''theme'', alignWithAxis = alignWithAxis\<rparr>;
       Some (s\<lparr>description := Some description\<rparr>)
     }
     else Some s
   }"

text \<open>
  Modelled from the spec: \<^verbatim>\<open>onEvent\<close> of \<^verbatim>\<open>util/event\<close> is not among the
  sources.  By the spec the binder registers the handler against the drawable view
  and records the pair of the resolved name and the handler for later unbinding.
\<close>

definition onEvent :: "jsval \<Rightarrow> jsval \<Rightarrow> base_plot \<Rightarrow> base_plot option" where
  "onEvent eventName handler s = do {
     v \<leftarrow> plot s;
     Some (s\<lparr>plot := Some (view_on eventName handler v),
             eventHandlers := eventHandlers s @ [(eventName, handler)]\<rparr>)
   }"

text \<open>
  The pairs of key and value that \<^verbatim>\<open>_.each\<close> visits: the own properties of an
  object, the indices and elements of an array, nothing for any other value.
\<close>

fun each_entries :: "jsval \<Rightarrow> (jsval \<times> jsval) list" where
  "each_entries (JObj kvs) = map (\<lambda>(k, v). (JStr k, v)) kvs"
| "each_entries (JArr xs) = map (\<lambda>(i, v). (JNum (Fin (real i)), v)) (enumerate 0 xs)"
| "each_entries _ = []"

text \<open>The body of the loop in \<^verbatim>\<open>_events\<close>.\<close>

definition bind_event :: "props \<Rightarrow> jsval \<times> jsval \<Rightarrow> base_plot \<Rightarrow> base_plot option" where
  "bind_event eventmap ke s =
     (case snd ke of
        JFun name i \<Rightarrow>
          (let mapped = own (JObj eventmap) name;
               eventName = (if truthy mapped then mapped else fst ke)
           in onEvent eventName (JFun name i) s)
      | _ \<Rightarrow> Some s)"

fun each_bind :: "props \<Rightarrow> (jsval \<times> jsval) list \<Rightarrow> base_plot \<Rightarrow> base_plot option" where
  "each_bind eventmap [] s = Some s"
| "each_bind eventmap (ke # rest) s =
     (case bind_event eventmap ke s of None \<Rightarrow> None | Some s' \<Rightarrow> each_bind eventmap rest s')"

definition u_events :: "env \<Rightarrow> base_plot \<Rightarrow> base_plot option" where
  "u_events E s = do {
     events \<leftarrow> read (initialProps s) ''events'';
     if truthy events then each_bind (EVENT_MAP E) (each_entries events) s else Some s
   }"

text \<open>
  The block of \<^verbatim>\<open>_init\<close> that completes the scale configuration from the
  per-field \<^verbatim>\<open>meta\<close>.
\<close>

definition meta_scales :: "jsval \<Rightarrow> jsval \<Rightarrow> jsval" where
  "meta_scales props scales =
     mapValues scales (\<lambda>scaleConfig field.
       let meta = get (own props ''meta'') field
       in if truthy meta
          then JObj (mix1 (mix1 [] (own_props scaleConfig)) (own_props meta))
          else scaleConfig)"


text \<open>
  The drawable view that \<^verbatim>\<open>_init\<close> builds.  The view holds the configuration
  object itself, so what the last hook writes to the configuration reaches the
  options of the view as well.
\<close>

definition new_view :: "base_plot \<Rightarrow> jsval \<Rightarrow> jsval \<Rightarrow> margin \<Rightarrow> view" where
  "new_view s padding data viewMargin =
     \<lparr>v_width = c_width (canvasController s), v_height = c_height (canvasController s),
      v_padding = padding, v_data = data, v_theme = own (config s) ''theme'',
      v_options = config s, v_start_y = m_maxY viewMargin,
      v_end_x = c_width (canvasController s), v_end_y = c_height (canvasController s),
      listeners = [], v_renders = [], v_destroyed = False\<rparr>"

definition initial_config :: "jsval \<Rightarrow> jsval \<Rightarrow> jsval" where
  "initial_config th position =
     JObj [(''scales'', JObj []),
           (''legends'', JObj [(''position'', position)]),
           (''tooltip'', JObj [(''showTitle'', JBool True), (''triggerOn'', JStr ''mousemove''),
                               (''inPanel'', JBool True), (''useHtml'', JBool True)]),
           (''axes'', JObj [(''fields'', JObj [])]),
           (''coord'', JObj [(''type'', JStr ''cartesian'')]),
           (''elements'', JArr []),
           (''annotations'', JArr []),
           (''interactions'', JObj []),
           (''theme'', th),
           (''panelRange'', JObj [])]"

text \<open>A hook of the concrete chart, run on the configuration of the instance.\<close>

definition run_hook :: "(jsval \<Rightarrow> jsval \<Rightarrow> jsval) \<Rightarrow> base_plot \<Rightarrow> base_plot" where
  "run_hook h s = s\<lparr>config := h (initialProps s) (config s)\<rparr>"

text \<open>
  \<^verbatim>\<open>_init\<close>, in the four parts that its comments separate: the fresh
  configuration with the panel range, the title and the description with the view
  margin, the configuration of the chart (the calls from
  \<^verbatim>\<open>_setDefaultG2Config\<close> to \<^verbatim>\<open>_animation\<close>, then the completion of
  the scales), and the view with its interactions and events.
\<close>

definition init_panel :: "env \<Rightarrow> base_plot \<Rightarrow> (bbox \<times> base_plot) option" where
  "init_panel E s = do {
     let th = theme E;
     position \<leftarrow> read th ''defaultLegendPosition'';
     let s = s\<lparr>config := initial_config th position\<rparr>;
     let bs = own th ''backgroundStyle'';
     let s = (if truthy bs \<and> truthy (own bs ''fill'')
              then s\<lparr>canvasController := (canvasController s)\<lparr>backgroundColor := own bs ''fill''\<rparr>\<rparr>
              else s);
     rng \<leftarrow> u_getPanelRange s;
     Some (rng, s\<lparr>config := set_prop ''panelRange'' (bbox_val rng) (config s)\<rparr>)
   }"

definition init_chrome :: "env \<Rightarrow> bbox \<Rightarrow> base_plot \<Rightarrow> (margin \<times> base_plot) option" where
  "init_chrome E rng s = do {
     s \<leftarrow> u_title rng s;
     s \<leftarrow> u_description E rng s;
     viewMargin \<leftarrow> u_getViewMargin E s;
     Some (viewMargin, s)
   }"

definition init_hooks :: "env \<Rightarrow> base_plot \<Rightarrow> base_plot option" where
  "init_hooks E s = do {
     let s = run_hook (setDefaultG2Config E) s;
     let s = run_hook (coord E) s;
     let s = run_hook (scale E) s;
     let s = run_hook (axis E) s;
     s \<leftarrow> u_tooltip s;
     s \<leftarrow> u_legend s;
     let s = run_hook (addElements E) s;
     let s = run_hook (annotation E) s;
     let s = run_hook (animation E) s;
     Some s
   }"

definition init_g2config :: "env \<Rightarrow> base_plot \<Rightarrow> base_plot option" where
  "init_g2config E s = do {
     let props = initialProps s;
     s \<leftarrow> init_hooks E s;
     let scales = meta_scales props (own (config s) ''scales'');
     u_setConfig ''scales'' scales s
   }"

definition init_view :: "env \<Rightarrow> margin \<Rightarrow> base_plot \<Rightarrow> base_plot option" where
  "init_view E viewMargin s = do {
     let props = initialProps s;
     padding \<leftarrow> u_getPadding s;
     let s = s\<lparr>plot := Some (new_view s padding (own props ''data'') viewMargin)\<rparr>;
     let s = run_hook (interactions E) s;
     let s = s\<lparr>plot := map_option (\<lambda>v. v\<lparr>v_options := config s\<rparr>) (plot s)\<rparr>;
     u_events E s
   }"

definition u_init :: "env \<Rightarrow> base_plot \<Rightarrow> base_plot option" where
  "u_init E s = do {
     (rng, s) \<leftarrow> init_panel E s;
     (viewMargin, s) \<leftarrow> init_chrome E rng s;
     s \<leftarrow> init_g2config E s;
     init_view E viewMargin s
   }"

text \<open>
  \<^verbatim>\<open>_afterInit\<close> and \<^verbatim>\<open>updateConfig\<close> call each other.  The first argument
  bounds the number of nested calls of \<^verbatim>\<open>updateConfig\<close>; running out of it is
  the outcome \<open>OutOfFuel\<close>, a TypeError is the outcome \<open>Threw\<close>.
\<close>

datatype 'a outcome = OutOfFuel | Threw | Done 'a


text \<open>The statements of \<^verbatim>\<open>updateConfig\<close> up to the call of \<^verbatim>\<open>_init\<close>.\<close>

definition retire :: "env \<Rightarrow> jsval \<Rightarrow> base_plot \<Rightarrow> base_plot option" where
  "retire E cfg s = do {
     cp \<leftarrow> read cfg ''padding'';
     force \<leftarrow> (if truthy cp then Some False
               else do {
                 op \<leftarrow> read (originalProps s) ''padding'';
                 Some (truthy op \<and> op = JStr ''auto'')
               });
     cfg \<leftarrow> (if force then assign_prop ''padding'' (JStr ''auto'') cfg else Some cfg);
     let newProps = JObj (deepMix [] [initialProps s, cfg]);
     v \<leftarrow> plot s;
     let v = fold (\<lambda>handler. view_off (fst handler) (snd handler)) (eventHandlers s) v;
     let v = view_destroy v;
     let s = s\<lparr>plot := Some v, retired := retired s @ [v]\<rparr>;
     let s = s\<lparr>title := map_option td_destory (title s)\<rparr>;
     let s = s\<lparr>description := map_option td_destory (description s)\<rparr>;
     let s = s\<lparr>initialProps := newProps\<rparr>;
     let (w, h) = canvasSize E newProps;
     Some (s\<lparr>canvasController := (canvasController s)\<lparr>c_width := w, c_height := h\<rparr>\<rparr>)
   }"

definition u_beforeInit :: "base_plot \<Rightarrow> base_plot" where
  "u_beforeInit s = s"

fun updateConfig :: "nat \<Rightarrow> env \<Rightarrow> jsval \<Rightarrow> base_plot \<Rightarrow> base_plot outcome"
  and u_afterInit :: "nat \<Rightarrow> env \<Rightarrow> base_plot \<Rightarrow> base_plot outcome" where
  "updateConfig 0 E cfg s = OutOfFuel"
| "updateConfig (Suc n) E cfg s =
     (case retire E cfg s of
        None \<Rightarrow> Threw
      | Some s \<Rightarrow>
          (case u_init E (u_beforeInit s) of
             None \<Rightarrow> Threw
           | Some s \<Rightarrow> u_afterInit n E s))"
| "u_afterInit n E s =
     (case resolved_padding s of
        None \<Rightarrow> Threw
      | Some padding \<Rightarrow>
          if padding = JStr ''auto''
          then (case plot s of
                  None \<Rightarrow> Threw
                | Some v \<Rightarrow>
                    (case read (own (config s) ''theme'') ''defaultPadding'' of
                       None \<Rightarrow> Threw
                     | Some dp \<Rightarrow>
                         (let v = view_render (JBool False) v;
                              s = s\<lparr>plot := Some v\<rparr>;
                              padding = getAutoPadding E v (paddingComponents s) dp
                          in updateConfig n E (JObj [(''padding'', JArr padding)]) s)))
          else Done s)"

text \<open>
  The instance after the field initialisers and the statements of the constructor
  that precede the hooks.  The container is not modelled.
\<close>

definition start :: "env \<Rightarrow> jsval \<Rightarrow> base_plot" where
  "start E cfg =
     \<lparr>destroyed = False, initialProps = cfg,
      originalProps = JObj (deepMix [] [cfg]), config = JUndefined,
      eventHandlers = [], paddingComponents = [], title = None, description = None,
      plot = None,
      canvasController = \<lparr>c_width = fst (canvasSize E cfg), c_height = snd (canvasSize E cfg),
                           backgroundColor = JUndefined, c_destroyed = False, attached = True\<rparr>,
      retired = []\<rparr>"

definition constructor :: "nat \<Rightarrow> env \<Rightarrow> jsval \<Rightarrow> base_plot outcome" where
  "constructor n E cfg =
     (case u_init E (u_beforeInit (start E cfg)) of
        None \<Rightarrow> Threw
      | Some s \<Rightarrow> u_afterInit n E s)"

definition resgiterPadding :: "jsval \<Rightarrow> base_plot \<Rightarrow> base_plot" where
  "resgiterPadding components s = s\<lparr>paddingComponents := paddingComponents s @ [components]\<rparr>"





section \<open>A concrete chart\<close>

text \<open>
  A small theme, a chart whose only hook contributes a scale for the field \<open>x\<close>,
  and a text measurement that gives every text block a box of 100 by 10 at its
  margins.  The padding measurement reserves 20 on three sides and the height of the
  text blocks at the top.  They serve to run the class on concrete configurations.
\<close>

definition demoTheme :: jsval where
  "demoTheme =
     JObj [(''defaultLegendPosition'', JStr ''top''),
           (''title'', JObj [(''top_margin'', JNum (Fin 5)), (''alignWithAxis'', JBool False)]),
           (''description'', JObj [(''top_margin'', JNum (Fin 2)), (''bottom_margin'', JNum (Fin 3))]),
           (''tooltip'', JObj [(''offset'', JNum (Fin 4))]),
           (''padding'', JArr [JNum (Fin 1), JNum (Fin 1), JNum (Fin 1), JNum (Fin 1)]),
           (''defaultPadding'', JArr [JNum (Fin 20), JNum (Fin 20), JNum (Fin 20), JNum (Fin 20)])]"

definition demoEnv :: env where
  "demoEnv =
     \<lparr>theme = demoTheme,
      canvasSize = (\<lambda>_. (Fin 400, Fin 300)),
      measureText = (\<lambda>c. BBox (to_number (leftMargin c)) (to_number (topMargin c)) (Fin 100) (Fin 10)),
      getAutoPadding = (\<lambda>v cs dp. [JNum (num_add (v_start_y v) (Fin 20)), JNum (Fin 20), JNum (Fin 20), JNum (Fin 20)]),
      EVENT_MAP = [(''onClick'', JStr ''click'')],
      setDefaultG2Config = (\<lambda>p c. c),
      coord = (\<lambda>p c. c),
      scale = (\<lambda>p c. set_prop ''scales''
                 (JObj [(''x'', JObj [(''type'', JStr ''linear''), (''min'', JNum (Fin 0))])]) c),
      axis = (\<lambda>p c. c),
      addElements = (\<lambda>p c. c),
      annotation = (\<lambda>p c. c),
      animation = (\<lambda>p c. c),
      interactions = (\<lambda>p c. c)\<rparr>"

text \<open>The same chart under a theme whose padding is \<^verbatim>\<open>"auto"\<close>.\<close>

definition autoEnv :: env where
  "autoEnv = demoEnv\<lparr>theme := set_prop ''padding'' (JStr ''auto'') demoTheme\<rparr>"

text \<open>An instance as the constructor leaves it before \<^verbatim>\<open>_init\<close> fills it.\<close>

definition demoPlot :: "jsval \<Rightarrow> base_plot" where
  "demoPlot cfg =
     \<lparr>destroyed = False, initialProps = cfg, originalProps = cfg,
      config = initial_config demoTheme (JStr ''top''),
      eventHandlers = [], paddingComponents = [], title = None, description = None,
      plot = None,
      canvasController = \<lparr>c_width = Fin 400, c_height = Fin 300, backgroundColor = JUndefined,
                           c_destroyed = False, attached = True\<rparr>,
      retired = []\<rparr>"

definition demoTitle :: text_description where
  "demoTitle =
     TextDescription
       \<lparr>leftMargin = JNum (Fin 0), topMargin = JNum (Fin 5), td_text = JStr ''T'',
        style = JObj [], wrapperWidth = JNum (Fin 400), td_theme = demoTheme,
        alignWithAxis = JUndefined\<rparr>"

definition demoDescription :: text_description where
  "demoDescription =
     TextDescription
       \<lparr>leftMargin = JNum (Fin 0), topMargin = JNum (Fin 295), td_text = JStr ''D'',
        style = JObj [], wrapperWidth = JNum (Fin 400), td_theme = demoTheme,
        alignWithAxis = JUndefined\<rparr>"


text \<open>An instance with a title and a description that reaches below the canvas.\<close>

definition chromePlot :: base_plot where
  "chromePlot =
     (demoPlot (JObj []))\<lparr>title := Some demoTitle, description := Some demoDescription\<rparr>"

text \<open>
  An instance on a canvas of height \<open>10 ^ 17\<close> whose title lies at that height,
  and an instance whose title has a top margin that is not a number.
\<close>

definition hugeTitle :: text_description where
  "hugeTitle =
     TextDescription
       \<lparr>leftMargin = JNum (Fin 0), topMargin = JNum (Fin (10 ^ 17)), td_text = JStr ''T'',
        style = JObj [], wrapperWidth = JNum (Fin 400), td_theme = demoTheme,
        alignWithAxis = JUndefined\<rparr>"

definition hugePlot :: base_plot where
  "hugePlot =
     (demoPlot (JObj []))
       \<lparr>title := Some hugeTitle,
        canvasController := \<lparr>c_width = Fin 400, c_height = Fin (10 ^ 17),
                              backgroundColor = JUndefined, c_destroyed = False,
                              attached = True\<rparr>\<rparr>"

definition nanTitle :: text_description where
  "nanTitle =
     TextDescription
       \<lparr>leftMargin = JNum (Fin 0), topMargin = JNum NaN, td_text = JStr ''T'',
        style = JObj [], wrapperWidth = JNum (Fin 400), td_theme = demoTheme,
        alignWithAxis = JUndefined\<rparr>"

definition nanPlot :: base_plot where
  "nanPlot = (demoPlot (JObj []))\<lparr>title := Some nanTitle\<rparr>"

text \<open>An instance whose properties give the padding as a tuple.\<close>

definition paddedPlot :: base_plot where
  "paddedPlot =
     demoPlot (JObj [(''padding'', JArr [JNum (Fin 10), JNum (Fin 20), JNum (Fin 30), JNum (Fin 40)])])"


text \<open>An instance whose properties switch the tooltip off and also give it a style.\<close>

definition tooltipOffPlot :: base_plot where
  "tooltipOffPlot =
     demoPlot (JObj [(''tooltip'', JObj [(''visible'', JBool False),
                                         (''style'', JObj [(''offset'', JNum (Fin 9))])])])"






text \<open>A configuration with automatic padding, a title and event handlers.\<close>

definition demoCfg :: jsval where
  "demoCfg =
     JObj [(''data'', JArr [JObj [(''x'', JNum (Fin 1))]]),
           (''padding'', JStr ''auto''),
           (''title'', JObj [(''text'', JStr ''T'')]),
           (''events'', JObj [(''onClick'', JFun ''onClick'' 1), (''foo'', JFun ''hh'' 2),
                              (''bar'', JNum (Fin 3))])]"



section \<open>Notions for the proofs\<close>

text \<open>What a step of \<^verbatim>\<open>_init\<close> that only writes the configuration and the text blocks leaves alone.\<close>

abbreviation frame :: "base_plot \<Rightarrow> base_plot \<Rightarrow> bool" where
  "frame s s' \<equiv>
     destroyed s' = destroyed s \<and> initialProps s' = initialProps s \<and>
     originalProps s' = originalProps s \<and> paddingComponents s' = paddingComponents s \<and>
     retired s' = retired s \<and> eventHandlers s' = eventHandlers s \<and> plot s' = plot s \<and>
     canvasController s' = canvasController s"

text \<open>What \<^verbatim>\<open>_init\<close> as a whole leaves alone.\<close>

abbreviation kept :: "base_plot \<Rightarrow> base_plot \<Rightarrow> bool" where
  "kept s s' \<equiv>
     destroyed s' = destroyed s \<and> initialProps s' = initialProps s \<and>
     originalProps s' = originalProps s \<and> paddingComponents s' = paddingComponents s \<and>
     retired s' = retired s \<and>
     c_width (canvasController s') = c_width (canvasController s) \<and>
     c_height (canvasController s') = c_height (canvasController s) \<and>
     c_destroyed (canvasController s') = c_destroyed (canvasController s) \<and>
     attached (canvasController s') = attached (canvasController s)"

text \<open>The effect of binding the handlers \<open>new\<close> to the view \<open>v\<close>.\<close>

abbreviation bound :: "base_plot \<Rightarrow> base_plot \<Rightarrow> view \<Rightarrow> (jsval \<times> jsval) list \<Rightarrow> bool" where
  "bound s s' v new \<equiv>
     plot s' = Some (v\<lparr>listeners := listeners v @ new\<rparr>) \<and>
     eventHandlers s' = eventHandlers s @ new \<and>
     destroyed s' = destroyed s \<and> initialProps s' = initialProps s \<and>
     originalProps s' = originalProps s \<and> paddingComponents s' = paddingComponents s \<and>
     retired s' = retired s \<and> canvasController s' = canvasController s \<and>
     config s' = config s \<and> title s' = title s \<and> description s' = description s"


text \<open>
  The view after \<^verbatim>\<open>updateConfig\<close> has unbound the recorded handlers and
  destroyed it, the properties after the measured padding has been merged in, and
  the instance on which \<^verbatim>\<open>updateConfig\<close> then runs \<^verbatim>\<open>_init\<close>.
\<close>

abbreviation unbound :: "base_plot \<Rightarrow> view \<Rightarrow> view" where
  "unbound s v \<equiv>
     view_destroy (fold (\<lambda>handler. view_off (fst handler) (snd handler)) (eventHandlers s) v)"

abbreviation measured_props :: "base_plot \<Rightarrow> jsval list \<Rightarrow> jsval" where
  "measured_props s M \<equiv> JObj (deepMix [] [initialProps s, JObj [(''padding'', JArr M)]])"

abbreviation after_retire :: "env \<Rightarrow> jsval list \<Rightarrow> view \<Rightarrow> base_plot \<Rightarrow> base_plot" where
  "after_retire E M v s \<equiv>
     s\<lparr>plot := Some (unbound s v),
       retired := retired s @ [unbound s v],
       title := map_option td_destory (title s),
       description := map_option td_destory (description s),
       initialProps := measured_props s M,
       canvasController := (canvasController s)
         \<lparr>c_width := fst (canvasSize E (measured_props s M)),
          c_height := snd (canvasSize E (measured_props s M))\<rparr>\<rparr>"


text \<open>Two instances agree on what \<^verbatim>\<open>_init\<close> reads and on the configuration.\<close>

abbreviation config_agrees :: "base_plot \<Rightarrow> base_plot \<Rightarrow> bool" where
  "config_agrees s t \<equiv>
     initialProps t = initialProps s \<and> paddingComponents t = paddingComponents s \<and>
     c_width (canvasController t) = c_width (canvasController s) \<and>
     c_height (canvasController t) = c_height (canvasController s) \<and>
     config t = config s"


text \<open>They agree on the title and the description as well.\<close>

abbreviation chrome_agrees :: "base_plot \<Rightarrow> base_plot \<Rightarrow> bool" where
  "chrome_agrees s t \<equiv>
     initialProps t = initialProps s \<and> paddingComponents t = paddingComponents s \<and>
     c_width (canvasController t) = c_width (canvasController s) \<and>
     c_height (canvasController t) = c_height (canvasController s) \<and>
     config t = config s \<and> title t = title s \<and> description t = description s"




section \<open>The layout\<close>

lemma index_tuple:
  "index (JArr [a, b, c, d]) 0 = Some a" "index (JArr [a, b, c, d]) 1 = Some b"
  "index (JArr [a, b, c, d]) 2 = Some c" "index (JArr [a, b, c, d]) 3 = Some d"
  by (simp_all add: numeral_3_eq_3)

text \<open>
  C5.  When the padding in force is a tuple of numbers (top, right, bottom, left),
  the panel range is the box with its corner at (left, top), the canvas width less
  left and right as its width, and the canvas height less top and bottom as its
  height; the width and the height are not negative when the canvas is at least as
  large as the padding sums.  When the padding in force is \<^verbatim>\<open>"auto"\<close>, the
  padding used is the tuple of four zeros, and the panel range is the whole canvas.
\<close>

theorem panel_range_from_padding:
  "(resolved_padding s = Some (JArr [JNum (Fin t), JNum (Fin r), JNum (Fin b), JNum (Fin l)]) \<and>
    c_width (canvasController s) = Fin cw \<and> c_height (canvasController s) = Fin ch \<longrightarrow>
      (\<exists>R. u_getPanelRange s = Some R \<and>
         R = BBox (Fin l) (Fin t) (Fin (cw - l - r)) (Fin (ch - t - b)) \<and>
         minX R = Fin l \<and> minY R = Fin t \<and>
         width R = Fin (cw - l - r) \<and> height R = Fin (ch - t - b) \<and>
         (l + r \<le> cw \<longrightarrow> num_ge (width R) (Fin 0)) \<and>
         (t + b \<le> ch \<longrightarrow> num_ge (height R) (Fin 0)))) \<and>
   (resolved_padding s = Some (JStr ''auto'') \<longrightarrow>
      u_getPadding s = Some (JArr [JNum (Fin 0), JNum (Fin 0), JNum (Fin 0), JNum (Fin 0)]) \<and>
      u_getPanelRange s =
        Some (BBox (Fin 0) (Fin 0) (c_width (canvasController s)) (c_height (canvasController s))))"
proof (intro conjI impI)
  assume "resolved_padding s = Some (JArr [JNum (Fin t), JNum (Fin r), JNum (Fin b), JNum (Fin l)]) \<and>
    c_width (canvasController s) = Fin cw \<and> c_height (canvasController s) = Fin ch"
  then have "u_getPanelRange s = Some (BBox (Fin l) (Fin t) (Fin (cw - l - r)) (Fin (ch - t - b)))"
    by (simp add: u_getPanelRange_def u_getPadding_def index_tuple num_sub_def)
  then show "\<exists>R. u_getPanelRange s = Some R \<and>
         R = BBox (Fin l) (Fin t) (Fin (cw - l - r)) (Fin (ch - t - b)) \<and>
         minX R = Fin l \<and> minY R = Fin t \<and>
         width R = Fin (cw - l - r) \<and> height R = Fin (ch - t - b) \<and>
         (l + r \<le> cw \<longrightarrow> num_ge (width R) (Fin 0)) \<and>
         (t + b \<le> ch \<longrightarrow> num_ge (height R) (Fin 0))"
    by (simp add: BBox_def)
next
  assume "resolved_padding s = Some (JStr ''auto'')"
  then show p: "u_getPadding s = Some (JArr [JNum (Fin 0), JNum (Fin 0), JNum (Fin 0), JNum (Fin 0)])"
    by (simp add: u_getPadding_def)
  have "num_add (num_add w (Fin 0)) (Fin 0) = w" for w
    by (cases w) simp_all
  with p show "u_getPanelRange s =
        Some (BBox (Fin 0) (Fin 0) (c_width (canvasController s)) (c_height (canvasController s)))"
    by (simp add: u_getPanelRange_def index_tuple num_sub_def)
qed

lemma paddedPlot_padding:
  "resolved_padding paddedPlot =
     Some (JArr [JNum (Fin 10), JNum (Fin 20), JNum (Fin 30), JNum (Fin 40)])"
  by (simp add: resolved_padding_def paddedPlot_def demoPlot_def)

theorem panel_range_from_padding_witness:
  "u_getPanelRange paddedPlot = Some (BBox (Fin 40) (Fin 10) (Fin 340) (Fin 260)) \<and>
   resolved_padding (demoPlot (JObj [(''padding'', JStr ''auto'')])) = Some (JStr ''auto'') \<and>
   u_getPanelRange (demoPlot (JObj [(''padding'', JStr ''auto'')])) =
     Some (BBox (Fin 0) (Fin 0) (Fin 400) (Fin 300))"
proof -
  have c: "c_width (canvasController paddedPlot) = Fin 400"
    "c_height (canvasController paddedPlot) = Fin 300"
    by (simp_all add: paddedPlot_def demoPlot_def)
  have a: "resolved_padding (demoPlot (JObj [(''padding'', JStr ''auto'')])) = Some (JStr ''auto'')"
    by (simp add: resolved_padding_def demoPlot_def)
  from panel_range_from_padding [of paddedPlot 10 20 30 40 400 300] paddedPlot_padding c
  have "u_getPanelRange paddedPlot = Some (BBox (Fin 40) (Fin 10) (Fin 340) (Fin 260))"
    by simp
  moreover from panel_range_from_padding [of "demoPlot (JObj [(''padding'', JStr ''auto'')])"] a
  have "u_getPanelRange (demoPlot (JObj [(''padding'', JStr ''auto'')])) =
     Some (BBox (Fin 0) (Fin 0) (Fin 400) (Fin 300))"
    by (simp add: demoPlot_def)
  ultimately show ?thesis using a by simp
qed

section \<open>The rounding of doubles\<close>

lemma rne_bound: "\<bar>of_int (rne x) - x\<bar> \<le> 1 / 2"
  unfolding rne_def Let_def by (auto simp: abs_le_iff)

lemma rne_eqI: "of_int n - 1 / 2 < x \<Longrightarrow> x < of_int n + 1 / 2 \<Longrightarrow> rne x = n"
  unfolding rne_def Let_def by (auto; linarith)

lemma dbl_not_NaN [simp]: "dbl x \<noteq> NaN"
  by (simp add: dbl_def Let_def)

lemma fl_not_NaN: "a \<noteq> NaN \<Longrightarrow> fl a \<noteq> NaN"
  by (cases a) simp_all

lemma ulp_small:
  assumes "x \<noteq> 0" "\<bar>x\<bar> < 2 ^ 50"
  shows "2 powi (max \<lfloor>log 2 \<bar>x\<bar>\<rfloor> (- 1022) - 52) \<le> (1 / 8 :: real)"
proof -
  have "\<bar>x\<bar> < 2 powr 50" using assms(2) by simp
  then have "log 2 \<bar>x\<bar> < 50"
    using assms(1) by (subst log_less_iff) simp_all
  then have "\<lfloor>log 2 \<bar>x\<bar>\<rfloor> \<le> 49" by linarith
  then have "max \<lfloor>log 2 \<bar>x\<bar>\<rfloor> (- 1022) - 52 \<le> - 3" by simp
  then have "(2::real) powi (max \<lfloor>log 2 \<bar>x\<bar>\<rfloor> (- 1022) - 52) \<le> 2 powi (- 3)"
    by (intro power_int_increasing) simp_all
  then show ?thesis by (simp add: power_int_minus)
qed

lemma dbl_near:
  assumes "\<bar>x\<bar> < 2 ^ 50"
  shows "\<exists>r. dbl x = Fin r \<and> \<bar>r - x\<bar> \<le> 1 / 16"
proof (cases "x = 0")
  case True
  then show ?thesis by (simp add: dbl_def)
next
  case False
  define q :: real where "q = 2 powi (max \<lfloor>log 2 \<bar>x\<bar>\<rfloor> (- 1022) - 52)"
  define r where "r = of_int (rne (x / q)) * q"
  have q: "0 < q" "q \<le> 1 / 8"
    using ulp_small[OF False assms] by (simp_all add: q_def)
  have "r - x = q * (of_int (rne (x / q)) - x / q)"
    using q(1) by (simp add: r_def field_simps)
  then have "\<bar>r - x\<bar> = q * \<bar>of_int (rne (x / q)) - x / q\<bar>"
    using q(1) by (simp add: abs_mult)
  also have "\<dots> \<le> q * (1 / 2)"
    using q(1) rne_bound[of "x / q"] by (intro mult_left_mono) simp_all
  also have "\<dots> \<le> 1 / 16" using q(2) by simp
  finally have n: "\<bar>r - x\<bar> \<le> 1 / 16" .
  with assms have "\<bar>r\<bar> < 2 ^ 50 + 1" by linarith
  also have "\<dots> \<le> (2::real) ^ 1024" by simp
  finally have "\<not> 2 ^ 1024 \<le> \<bar>r\<bar>" by simp
  with False n show ?thesis
    by (simp add: dbl_def Let_def q_def[symmetric] r_def[symmetric])
qed

lemma tenth_bounds: "1 / 16 < tenth" "tenth < 1 / 8"
  by (simp_all add: tenth_def)

lemma clamp_below:
  assumes "0 < h" "h \<le> 2 ^ 50"
  shows "num_lt (fl (num_sub (Fin h) (Fin tenth))) (Fin h)"
proof -
  have "\<bar>h - tenth\<bar> < 2 ^ 50" using assms tenth_bounds by (simp add: abs_less_iff)
  from dbl_near[OF this] obtain r where "dbl (h - tenth) = Fin r"
    and "\<bar>r - (h - tenth)\<bar> \<le> 1 / 16"
    by blast
  then have "r < h" using tenth_bounds by linarith
  with \<open>dbl (h - tenth) = Fin r\<close> show ?thesis by (simp add: num_sub_def)
qed

lemma dbl_evalI:
  assumes "2 powr of_int e \<le> \<bar>x\<bar>" "\<bar>x\<bar> < 2 powr of_int (e + 1)" "- 1022 \<le> e"
    and "of_int n - 1 / 2 < x / 2 powi (e - 52)" "x / 2 powi (e - 52) < of_int n + 1 / 2"
    and "\<bar>of_int n * 2 powi (e - 52)\<bar> < (2::real) ^ 1024"
  shows "dbl x = Fin (of_int n * 2 powi (e - 52))"
proof -
  have x: "x \<noteq> 0" using assms(1) by auto
  then have "\<lfloor>log 2 \<bar>x\<bar>\<rfloor> = e"
    using assms(1,2) by (subst floor_log_eq_powr_iff) simp_all
  with assms(3) have m: "max \<lfloor>log 2 \<bar>x\<bar>\<rfloor> (- 1022) = e" by simp
  have "rne (x / 2 powi (e - 52)) = n" using assms(4,5) by (rule rne_eqI)
  with x m assms(6) show ?thesis by (simp add: dbl_def Let_def)
qed

lemma dbl_eval_smallI:
  assumes "2 powr of_int e \<le> \<bar>x\<bar>" "\<bar>x\<bar> < 2 powr of_int (e + 1)" "- 1022 \<le> e"
    and "int k = 52 - e"
    and "of_int n - 1 / 2 < x * 2 ^ k" "x * 2 ^ k < of_int n + 1 / 2"
    and "\<bar>of_int n / 2 ^ k\<bar> < (2::real) ^ 1024"
  shows "dbl x = Fin (of_int n / 2 ^ k)"
proof -
  have "e - 52 = - int k" using assms(4) by simp
  then have "(2::real) powi (e - 52) = 2 powi (- int k)" by simp
  then have q: "(2::real) powi (e - 52) = 1 / 2 ^ k"
    by (simp add: power_int_minus field_simps)
  from dbl_evalI[OF assms(1-3), of n] assms(5-7) show ?thesis
    by (simp add: q)
qed

lemma d308: "dbl 308 = Fin 308"
proof -
  have "dbl 308 = Fin (of_int 5418393301680128 / 2 ^ 44)"
    by (rule dbl_eval_smallI [where e = 8]) simp_all
  then show ?thesis by simp
qed

lemma huge_clamp: "fl (num_sub (Fin (10 ^ 17)) (Fin tenth)) = Fin (10 ^ 17)"
proof -
  have "dbl (10 ^ 17 - tenth) = Fin (of_int 6250000000000000 * 2 powi (56 - 52))"
    by (rule dbl_evalI) (simp_all add: tenth_def power_int_def)
  then show ?thesis by (simp add: num_sub_def power_int_def)
qed

lemma huge_clamp_numeral:
  "fl (num_sub (Fin 100000000000000000) (Fin tenth)) = Fin 100000000000000000"
  using huge_clamp by simp

section \<open>The view margin\<close>

lemma not_ge_lt: "a \<noteq> NaN \<Longrightarrow> \<not> num_ge a (Fin h) \<Longrightarrow> num_lt a (Fin h)"
  by (cases a) simp_all

lemma math_max_NegInf: "math_max a NegInf = a"
  by (cases a) simp_all

lemma math_max_not_NaN: "a \<noteq> NaN \<Longrightarrow> b \<noteq> NaN \<Longrightarrow> math_max a b \<noteq> NaN"
  by (cases a; cases b) simp_all

lemma num_add_Fin_not_NaN: "a \<noteq> NaN \<Longrightarrow> num_add a (Fin b) \<noteq> NaN"
  by (cases a) simp_all

lemma united_margin_maxY:
  assumes t: "\<forall>t. title s = Some t \<longrightarrow> maxY (getBBox E t) \<noteq> NaN"
    and d: "\<forall>d. description s = Some d \<longrightarrow> maxY (getBBox E d) \<noteq> NaN \<and>
              (\<exists>kvs b. own (own (config s) ''theme'') ''description'' = JObj kvs \<and>
                 map_of kvs ''bottom_margin'' = Some (JNum (Fin b)))"
    and c: "title s \<noteq> None \<or> description s \<noteq> None"
  shows "\<exists>u. united_margin E s = Some u \<and> m_maxY u \<noteq> NaN"
proof (cases "description s")
  case None
  with c obtain tt where a: "title s = Some tt" by auto
  with t have "maxY (getBBox E tt) \<noteq> NaN" by simp
  with None a show ?thesis
    by (simp add: united_margin_def chrome_boxes_def union_box_def math_max_NegInf)
next
  case (Some dd)
  with d obtain kvs b where n: "maxY (getBBox E dd) \<noteq> NaN"
    and k: "own (own (config s) ''theme'') ''description'' = JObj kvs"
           "map_of kvs ''bottom_margin'' = Some (JNum (Fin b))" by auto
  have r: "read (own (config s) ''theme'') ''description'' = Some (JObj kvs)"
    using k(1) by (cases "own (config s) ''theme''") auto
  show ?thesis
  proof (cases "title s")
    case None
    with Some n k r show ?thesis
      by (simp add: united_margin_def chrome_boxes_def union_box_def math_max_NegInf
          num_add_Fin_not_NaN fl_not_NaN)
  next
    case (Some tt)
    with t have "maxY (getBBox E tt) \<noteq> NaN" by simp
    with Some \<open>description s = Some dd\<close> n k r show ?thesis
      by (simp add: united_margin_def chrome_boxes_def union_box_def math_max_NegInf
          num_add_Fin_not_NaN math_max_not_NaN fl_not_NaN)
  qed
qed

text \<open>
  C3, as amended.  Let the canvas height be a positive number of at most
  \<open>2 ^ 50\<close>, let the lower edges of the boxes of the title and the description be
  numbers (not NaN), and let the theme give a finite number as the bottom margin of
  the description when there is one.  Then \<^verbatim>\<open>_getViewMargin\<close> returns a margin
  whose lower edge is strictly less than the canvas height.  Without title and
  description it is the zero box.  Otherwise its lower edge is that of the united
  box (with the bottom margin added when there is a description), replaced by the
  double nearest to the canvas height less \<^verbatim>\<open>0.1\<close> when it reaches the canvas
  height.
\<close>

theorem view_margin_below_canvas_height:
  assumes h: "c_height (canvasController s) = Fin h" "0 < h" "h \<le> 2 ^ 50"
    and t: "\<forall>t. title s = Some t \<longrightarrow> maxY (getBBox E t) \<noteq> NaN"
    and d: "\<forall>d. description s = Some d \<longrightarrow> maxY (getBBox E d) \<noteq> NaN \<and>
              (\<exists>kvs b. own (own (config s) ''theme'') ''description'' = JObj kvs \<and>
                 map_of kvs ''bottom_margin'' = Some (JNum (Fin b)))"
  shows "\<exists>m. u_getViewMargin E s = Some m \<and> num_lt (m_maxY m) (Fin h) \<and>
           (title s = None \<and> description s = None \<longrightarrow>
              m = \<lparr>m_minX = Fin 0, m_maxX = Fin 0, m_minY = Fin 0, m_maxY = Fin 0\<rparr>) \<and>
           (title s \<noteq> None \<or> description s \<noteq> None \<longrightarrow>
              (\<exists>u. united_margin E s = Some u \<and>
                 m_maxY m = (if num_ge (m_maxY u) (Fin h)
                             then fl (num_sub (Fin h) (Fin tenth)) else m_maxY u)))"
proof (cases "title s \<noteq> None \<or> description s \<noteq> None")
  case False
  then show ?thesis using h by (simp add: u_getViewMargin_def chrome_boxes_def)
next
  case True
  from united_margin_maxY[OF t d True] obtain u
    where u: "united_margin E s = Some u" "m_maxY u \<noteq> NaN" by blast
  from True have l: "length (chrome_boxes E s) \<noteq> 0"
    by (auto simp: chrome_boxes_def split: option.splits)
  from clamp_below[OF h(2,3)] u(2) have
    "num_lt (if num_ge (m_maxY u) (Fin h) then fl (num_sub (Fin h) (Fin tenth)) else m_maxY u) (Fin h)"
    by (simp add: not_ge_lt)
  with True u l h(1) show ?thesis
    by (auto simp add: u_getViewMargin_def)
qed

theorem view_margin_below_canvas_height_witness:
  "\<exists>m. u_getViewMargin demoEnv chromePlot = Some m \<and> num_lt (m_maxY m) (Fin 300) \<and>
       m_maxY m = fl (num_sub (Fin 300) (Fin tenth))"
proof -
  have 1: "c_height (canvasController chromePlot) = Fin 300" "(0::real) < 300" "(300::real) \<le> 2 ^ 50"
    by (simp_all add: chromePlot_def demoPlot_def)
  have 2: "\<forall>t. title chromePlot = Some t \<longrightarrow> maxY (getBBox demoEnv t) \<noteq> NaN"
    by (simp add: chromePlot_def demoPlot_def demoTitle_def getBBox_def demoEnv_def BBox_def
        TextDescription_def)
  have 3: "\<forall>d. description chromePlot = Some d \<longrightarrow> maxY (getBBox demoEnv d) \<noteq> NaN \<and>
              (\<exists>kvs b. own (own (config chromePlot) ''theme'') ''description'' = JObj kvs \<and>
                 map_of kvs ''bottom_margin'' = Some (JNum (Fin b)))"
    by (simp add: chromePlot_def demoPlot_def demoDescription_def getBBox_def demoEnv_def
        BBox_def TextDescription_def initial_config_def demoTheme_def)
  note 5 = d308
  have 4: "united_margin demoEnv chromePlot =
             Some \<lparr>m_minX = Fin 0, m_maxX = Fin 100, m_minY = Fin 5, m_maxY = Fin 308\<rparr>"
    by (simp add: united_margin_def chrome_boxes_def union_box_def chromePlot_def demoPlot_def
        demoDescription_def demoTitle_def getBBox_def demoEnv_def BBox_def TextDescription_def
        initial_config_def demoTheme_def 5)
  show ?thesis
    using view_margin_below_canvas_height[OF 1 2 3] 4 by (auto simp: chromePlot_def demoPlot_def)
qed

text \<open>
  The claim C3 as it stands fails at a canvas height of \<open>10 ^ 17\<close> with a title
  that reaches below the canvas: the double nearest to the height less \<^verbatim>\<open>0.1\<close>
  is the height itself, so the lower edge of the margin equals the canvas height.  It
  also fails for a box whose edges are NaN, which stays NaN.
\<close>

theorem view_margin_reaches_canvas_height:
  "c_height (canvasController hugePlot) = Fin (10 ^ 17) \<and>
   map_option m_maxY (u_getViewMargin demoEnv hugePlot) = Some (Fin (10 ^ 17)) \<and>
   \<not> num_lt (Fin (10 ^ 17)) (Fin (10 ^ 17)) \<and>
   c_height (canvasController nanPlot) = Fin 300 \<and>
   map_option m_maxY (u_getViewMargin demoEnv nanPlot) = Some NaN \<and>
   \<not> num_lt NaN (Fin 300)"
proof -
  have "u_getViewMargin demoEnv hugePlot =
          Some \<lparr>m_minX = Fin 0, m_maxX = Fin 100, m_minY = Fin (10 ^ 17), m_maxY = Fin (10 ^ 17)\<rparr>"
    by (simp add: u_getViewMargin_def united_margin_def chrome_boxes_def union_box_def
        hugePlot_def hugeTitle_def demoPlot_def getBBox_def demoEnv_def BBox_def
        TextDescription_def huge_clamp_numeral)
  moreover have "u_getViewMargin demoEnv nanPlot =
          Some \<lparr>m_minX = Fin 0, m_maxX = Fin 100, m_minY = NaN, m_maxY = NaN\<rparr>"
    by (simp add: u_getViewMargin_def united_margin_def chrome_boxes_def union_box_def
        nanPlot_def nanTitle_def demoPlot_def getBBox_def demoEnv_def BBox_def
        TextDescription_def)
  ultimately show ?thesis
    by (simp add: hugePlot_def nanPlot_def demoPlot_def)
qed

section \<open>What the steps of the assembly leave alone\<close>

lemma store_theme_block_frame [simp]: "frame s (store_theme_block k b s)"
  "title (store_theme_block k b s) = title s"
  "description (store_theme_block k b s) = description s"
  by (simp_all add: store_theme_block_def Let_def)

lemma u_setConfig_frame:
  "u_setConfig k v s = Some s' \<Longrightarrow> frame s s' \<and> title s' = title s \<and> description s' = description s"
  by (auto simp: u_setConfig_def split: if_splits bind_splits jsval.splits)

lemma u_tooltip_frame:
  "u_tooltip s = Some s' \<Longrightarrow> frame s s' \<and> title s' = title s \<and> description s' = description s"
  by (auto simp: u_tooltip_def Let_def split: if_splits bind_splits dest!: u_setConfig_frame)

lemma u_legend_frame:
  "u_legend s = Some s' \<Longrightarrow> frame s s' \<and> title s' = title s \<and> description s' = description s"
  by (auto simp: u_legend_def Let_def split: if_splits bind_splits dest!: u_setConfig_frame)

lemma u_title_frame: "u_title r s = Some s' \<Longrightarrow> frame s s' \<and> description s' = description s"
  by (auto simp: u_title_def mix_theme_block_def Let_def split: bind_splits if_splits)

lemma u_description_frame: "u_description E r s = Some s' \<Longrightarrow> frame s s' \<and> title s' = title s"
  by (auto simp: u_description_def mix_theme_block_def Let_def split: bind_splits if_splits)

lemma run_hook_frame [simp]: "frame s (run_hook h s)" "title (run_hook h s) = title s"
   "description (run_hook h s) = description s"
  by (simp_all add: run_hook_def)

lemma init_hooks_frame:
  "init_hooks E s = Some s' \<Longrightarrow>
     frame s s' \<and> title s' = title s \<and> description s' = description s"
  by (auto simp: init_hooks_def Let_def split: bind_splits
      dest!: u_tooltip_frame u_legend_frame)

section \<open>The assembly of the configuration\<close>

lemma own_set_prop_other: "k' \<noteq> k \<Longrightarrow> own (set_prop k v c) k' = own c k'"
  by (cases c) (simp_all add: set_prop_def update_conv')

lemma u_setConfig_other:
  "u_setConfig key v s = Some s' \<Longrightarrow> key \<noteq> ''element'' \<Longrightarrow> k \<noteq> key \<Longrightarrow>
     own (config s') k = own (config s) k"
  by (auto simp: u_setConfig_def own_set_prop_other split: if_splits bind_splits)

lemma u_legend_other:
  assumes "u_legend s = Some s'" "k \<noteq> ''legends''"
  shows "own (config s') k = own (config s) k"
  using assms
  by (auto simp: u_legend_def Let_def split: if_splits bind_splits
      dest!: u_setConfig_other[where k=k])

text \<open>
  C4.  When the properties hold a tooltip object whose \<^verbatim>\<open>visible\<close> is
  \<^verbatim>\<open>false\<close>, \<^verbatim>\<open>_tooltip\<close> replaces the tooltip section of the configuration
  by \<^verbatim>\<open>false\<close> and changes nothing else: whatever style the tooltip object
  carries, the theme of the configuration stays as it was.  The legend step that
  follows leaves the section at \<^verbatim>\<open>false\<close>.
\<close>

theorem tooltip_invisible_short_circuit:
  assumes "own (initialProps s) ''tooltip'' = JObj tt"
    and "map_of tt ''visible'' = Some (JBool False)"
    and "config s = JObj c"
  shows "u_tooltip s = Some (s\<lparr>config := JObj (AList.update ''tooltip'' (JBool False) c)\<rparr>) \<and>
         (\<forall>s'. u_tooltip s = Some s' \<longrightarrow>
            own (config s') ''tooltip'' = JBool False \<and>
            own (config s') ''theme'' = own (config s) ''theme'' \<and>
            (\<forall>s''. u_legend s' = Some s'' \<longrightarrow> own (config s'') ''tooltip'' = JBool False))"
proof -
  from assms(1) have r: "read (initialProps s) ''tooltip'' = Some (JObj tt)"
    by (cases "initialProps s") auto
  have t: "u_tooltip s = Some (s\<lparr>config := JObj (AList.update ''tooltip'' (JBool False) c)\<rparr>)"
    using r assms(2,3) by (simp add: u_tooltip_def u_setConfig_def set_prop_def)
  show ?thesis
    using t assms(3) by (auto simp: update_conv' dest!: u_legend_other[where k="''tooltip''"])
qed

theorem tooltip_invisible_short_circuit_witness:
  "own (own (initialProps tooltipOffPlot) ''tooltip'') ''style'' = JObj [(''offset'', JNum (Fin 9))] \<and>
   (\<exists>s'. u_tooltip tooltipOffPlot = Some s' \<and>
      own (config s') ''tooltip'' = JBool False \<and>
      own (own (config s') ''theme'') ''tooltip'' = JObj [(''offset'', JNum (Fin 4))])"
proof -
  have 1: "own (initialProps tooltipOffPlot) ''tooltip'' =
             JObj [(''visible'', JBool False), (''style'', JObj [(''offset'', JNum (Fin 9))])]"
    by (simp add: tooltipOffPlot_def demoPlot_def)
  have 2: "map_of [(''visible'', JBool False), (''style'', JObj [(''offset'', JNum (Fin 9))])]
             ''visible'' = Some (JBool False)"
    by simp
  have 3: "config tooltipOffPlot = initial_config demoTheme (JStr ''top'')"
    by (simp add: tooltipOffPlot_def demoPlot_def)
  have 4: "own (own (config tooltipOffPlot) ''theme'') ''tooltip'' = JObj [(''offset'', JNum (Fin 4))]"
    by (simp add: 3 initial_config_def demoTheme_def)
  show ?thesis
    using tooltip_invisible_short_circuit [OF 1 2 3 [unfolded initial_config_def]] 1 4
    by auto
qed

lemma map_of_mix1:
  "distinct (map fst src) \<Longrightarrow>
   map_of (mix1 d src) k =
     (case map_of src k of
        Some v \<Rightarrow> if k = ''constructor'' \<or> v = JUndefined then map_of d k else Some v
      | None \<Rightarrow> map_of d k)"
proof (induction src arbitrary: d)
  case Nil
  then show ?case by simp
next
  case (Cons p src)
  obtain k' v' where p: "p = (k', v')" by (cases p)
  from Cons.prems p have nk: "map_of src k' = None" and ds: "distinct (map fst src)"
    by (auto simp: map_of_eq_None_iff)
  show ?case using Cons.IH[OF ds] p nk
    by (auto simp: update_conv' split: option.splits)
qed

lemma own_mix1:
  "distinct (map fst src) \<Longrightarrow>
   own (JObj (mix1 d src)) k =
     (if k \<noteq> ''constructor'' \<and> own (JObj src) k \<noteq> JUndefined
      then own (JObj src) k else own (JObj d) k)"
  by (auto simp: map_of_mix1 split: option.splits)











lemma store_theme_block_props [simp]: "initialProps (store_theme_block k b s) = initialProps s"
  by (simp add: store_theme_block_def Let_def)

lemma u_title_props: "u_title r s = Some s' \<Longrightarrow> initialProps s' = initialProps s"
  by (auto simp: u_title_def mix_theme_block_def Let_def split: bind_splits if_splits)

lemma u_description_throws:
  assumes "truthy (own (initialProps s) ''description'')"
    and "own (initialProps s) ''title'' = JUndefined \<or> own (initialProps s) ''title'' = JNull"
  shows "u_description E r s = None"
proof -
  from assms(1) obtain ps where p: "initialProps s = JObj ps"
    by (cases "initialProps s") auto
  show ?thesis
    using assms p by (auto simp: u_description_def Let_def split: bind_splits)
qed

lemma bind_NoneI: "(\<And>x. m = Some x \<Longrightarrow> f x = None) \<Longrightarrow> Option.bind m f = None"
  by (cases m) auto

lemma init_panel_props: "init_panel E s = Some (r, s') \<Longrightarrow> initialProps s' = initialProps s"
  by (auto simp: init_panel_def Let_def split: bind_splits if_splits)

lemma u_init_throws:
  assumes "truthy (own (initialProps s) ''description'')"
    and "own (initialProps s) ''title'' = JUndefined \<or> own (initialProps s) ''title'' = JNull"
  shows "u_init E s = None"
proof -
  have "init_chrome E r s1 = None" if "init_panel E s = Some (r, s1)" for r s1
  proof -
    from that have p: "initialProps s1 = initialProps s" by (rule init_panel_props)
    show ?thesis
      unfolding init_chrome_def
      apply (rule bind_NoneI)
      apply (frule u_title_props)
      apply (subst u_description_throws)
      using assms p apply simp_all
      done
  qed
  then show ?thesis
    unfolding u_init_def by (auto intro!: bind_NoneI)
qed

text \<open>
  C9.  When the configuration gives a description and its title is absent
  (\<^verbatim>\<open>undefined\<close> or \<^verbatim>\<open>null\<close>), \<^verbatim>\<open>_description\<close> throws on reading
  \<^verbatim>\<open>props.title.alignWithAxis\<close>, whatever the panel range and the rest of the
  instance, and the constructor throws instead of returning an instance, for every
  environment.
\<close>

theorem description_without_title_throws:
  assumes "truthy (own cfg ''description'')"
    and "own cfg ''title'' = JUndefined \<or> own cfg ''title'' = JNull"
  shows "(\<forall>r s. initialProps s = cfg \<longrightarrow> u_description E r s = None) \<and>
         constructor n E cfg = Threw"
  using assms
  by (simp add: constructor_def start_def u_beforeInit_def u_init_throws u_description_throws)

theorem description_without_title_throws_witness:
  "constructor 2 demoEnv (JObj [(''description'', JObj [(''text'', JStr ''D'')])]) = Threw"
  using description_without_title_throws
          [of "JObj [(''description'', JObj [(''text'', JStr ''D'')])]" demoEnv 2]
  by simp

section \<open>The lifecycle\<close>

lemma bind_event_shape:
  assumes "bind_event em ke s = Some s'" "plot s = Some v"
  shows "\<exists>new. bound s s' v new"
proof (cases "isFunction (snd ke)")
  case True
  then obtain f i where "snd ke = JFun f i" by (cases "snd ke") auto
  with assms show ?thesis
    by (auto simp: bind_event_def Let_def onEvent_def view_on_def split: bind_splits)
next
  case False
  with assms(1) have "s' = s" by (cases "snd ke") (auto simp: bind_event_def)
  with assms(2) have "bound s s' v []" by simp
  then show ?thesis by blast
qed

lemma each_bind_shape:
  "each_bind em kes s = Some s' \<Longrightarrow> plot s = Some v \<Longrightarrow> \<exists>new. bound s s' v new"
proof (induction kes arbitrary: s v)
  case Nil
  then have "bound s s' v []" by simp
  then show ?case by blast
next
  case (Cons ke kes)
  from Cons.prems(1) obtain s1 where 1: "bind_event em ke s = Some s1"
    and 2: "each_bind em kes s1 = Some s'"
    by (auto split: option.splits)
  from bind_event_shape[OF 1 Cons.prems(2)] obtain n1 where s1: "bound s s1 v n1" by blast
  then have "plot s1 = Some (v\<lparr>listeners := listeners v @ n1\<rparr>)" by simp
  from Cons.IH[OF 2 this] obtain n2 where
    "bound s1 s' (v\<lparr>listeners := listeners v @ n1\<rparr>) n2" by blast
  with s1 have "bound s s' v (n1 @ n2)" by simp
  then show ?case by blast
qed

lemma u_events_shape:
  assumes "u_events E s = Some s'" "plot s = Some v"
  shows "\<exists>new. bound s s' v new"
proof (cases "truthy (own (initialProps s) ''events'')")
  case True
  with assms show ?thesis
    by (auto simp: u_events_def split: bind_splits if_splits dest: each_bind_shape)
next
  case False
  with assms(1) have "s' = s"
    by (cases "initialProps s") (auto simp: u_events_def split: bind_splits if_splits)
  with assms(2) have "bound s s' v []" by simp
  then show ?thesis by blast
qed

lemma init_panel_frame:
  "init_panel E s = Some (r, s') \<Longrightarrow>
     kept s s' \<and> eventHandlers s' = eventHandlers s \<and> plot s' = plot s"
  by (auto simp: init_panel_def Let_def split: bind_splits if_splits)

lemma init_chrome_frame: "init_chrome E r s = Some (vm, s') \<Longrightarrow> frame s s'"
  by (auto simp: init_chrome_def split: bind_splits dest!: u_title_frame u_description_frame)

lemma init_g2config_frame: "init_g2config E s = Some s' \<Longrightarrow> frame s s'"
  by (auto simp: init_g2config_def Let_def split: bind_splits
      dest!: init_hooks_frame u_setConfig_frame)

lemma init_view_frame:
  assumes "init_view E vm s = Some s'"
  shows "kept s s' \<and>
     (\<exists>v. plot s' = Some v \<and> eventHandlers s' = eventHandlers s @ listeners v \<and>
          \<not> v_destroyed v \<and> v_renders v = [])"
proof -
  from assms obtain padding where
    e: "u_events E (s\<lparr>config := interactions E (initialProps s) (config s),
           plot := Some ((new_view s padding (own (initialProps s) ''data'') vm)
                           \<lparr>v_options := interactions E (initialProps s) (config s)\<rparr>)\<rparr>) = Some s'"
    by (auto simp: init_view_def Let_def run_hook_def split: bind_splits)
  from u_events_shape[OF e] obtain new where
    "bound (s\<lparr>config := interactions E (initialProps s) (config s),
           plot := Some ((new_view s padding (own (initialProps s) ''data'') vm)
                           \<lparr>v_options := interactions E (initialProps s) (config s)\<rparr>)\<rparr>) s'
       ((new_view s padding (own (initialProps s) ''data'') vm)
                           \<lparr>v_options := interactions E (initialProps s) (config s)\<rparr>) new"
    by auto
  then show ?thesis by (simp add: new_view_def)
qed

lemma u_init_frame:
  assumes "u_init E s = Some s'"
  shows "kept s s' \<and>
     (\<exists>v. plot s' = Some v \<and> eventHandlers s' = eventHandlers s @ listeners v \<and>
          \<not> v_destroyed v \<and> v_renders v = [])"
proof -
  from assms obtain r s1 vm s2 s3 where
    "init_panel E s = Some (r, s1)" "init_chrome E r s1 = Some (vm, s2)"
    "init_g2config E s2 = Some s3" "init_view E vm s3 = Some s'"
    by (auto simp: u_init_def split: bind_splits)
  from init_panel_frame[OF this(1)] init_chrome_frame[OF this(2)] init_g2config_frame[OF this(3)]
    init_view_frame[OF this(4)]
  show ?thesis by auto
qed


lemma fold_off_fields [simp]:
  "v_padding (fold (\<lambda>handler. view_off (fst handler) (snd handler)) hs v) = v_padding v"
  "v_renders (fold (\<lambda>handler. view_off (fst handler) (snd handler)) hs v) = v_renders v"
  "v_destroyed (fold (\<lambda>handler. view_off (fst handler) (snd handler)) hs v) = v_destroyed v"
  by (induction hs arbitrary: v) (simp_all add: view_off_def)

lemma resolved_padding_explicit:
  "truthy (own p ''padding'') \<Longrightarrow> initialProps s = p \<Longrightarrow>
     resolved_padding s = Some (own p ''padding'')"
  by (cases p) (auto simp: resolved_padding_def)

lemma init_view_padding:
  assumes "init_view E vm s = Some s'"
  shows "\<exists>v. plot s' = Some v \<and> u_getPadding s = Some (v_padding v)"
proof -
  from assms obtain padding where p: "u_getPadding s = Some padding" and
    e: "u_events E (s\<lparr>config := interactions E (initialProps s) (config s),
           plot := Some ((new_view s padding (own (initialProps s) ''data'') vm)
                           \<lparr>v_options := interactions E (initialProps s) (config s)\<rparr>)\<rparr>) = Some s'"
    by (auto simp: init_view_def Let_def run_hook_def split: bind_splits)
  from u_events_shape[OF e] p show ?thesis by (auto simp: new_view_def)
qed

lemma u_init_padding:
  assumes "u_init E s = Some s'" "truthy (own (initialProps s) ''padding'')"
  shows "\<exists>v. plot s' = Some v \<and>
           v_padding v = (if own (initialProps s) ''padding'' = JStr ''auto''
                          then JArr [JNum (Fin 0), JNum (Fin 0), JNum (Fin 0), JNum (Fin 0)]
                          else own (initialProps s) ''padding'')"
proof -
  from assms obtain r s1 vm s2 s3 where
    st: "init_panel E s = Some (r, s1)" "init_chrome E r s1 = Some (vm, s2)"
    "init_g2config E s2 = Some s3" "init_view E vm s3 = Some s'"
    by (auto simp: u_init_def split: bind_splits)
  from init_panel_frame[OF st(1)] init_chrome_frame[OF st(2)] init_g2config_frame[OF st(3)]
  have "initialProps s3 = initialProps s" by simp
  with assms(2) have "resolved_padding s3 = Some (own (initialProps s) ''padding'')"
    by (simp add: resolved_padding_explicit)
  with init_view_padding[OF st(4)] show ?thesis
    by (auto simp: u_getPadding_def)
qed

lemma own_deepMix_padding:
  "own (JObj (deepMix [] [p, JObj [(''padding'', JArr M)]])) ''padding'' = JArr M"
  by (simp add: deepMix_def update_conv')

lemma retire_measured:
  assumes "plot s = Some v"
  shows "retire E (JObj [(''padding'', JArr M)]) s = Some (after_retire E M v s)"
  using assms by (simp add: retire_def Let_def split: prod.splits)

lemma after_measured:
  assumes "u_init E (after_retire E M v s) = Some s3"
  shows "resolved_padding s3 = Some (JArr M) \<and> initialProps s3 = measured_props s M \<and>
         retired s3 = retired s @ [unbound s v] \<and> u_afterInit n E s3 = Done s3"
proof -
  from u_init_frame[OF assms] have
    p: "initialProps s3 = measured_props s M" and t: "retired s3 = retired s @ [unbound s v]"
    by simp_all
  have rp: "resolved_padding s3 = Some (JArr M)"
    using resolved_padding_explicit[OF _ p] by (simp add: own_deepMix_padding del: own.simps)
  then have "u_afterInit n E s3 = Done s3" by simp
  with p t rp show ?thesis by simp
qed

lemma measured_update:
  assumes "plot s = Some v"
  shows "updateConfig (Suc n) E (JObj [(''padding'', JArr M)]) s =
           (case u_init E (after_retire E M v s) of None \<Rightarrow> Threw | Some s3 \<Rightarrow> Done s3)"
proof (cases "u_init E (after_retire E M v s)")
  case None
  then show ?thesis
    by (simp only: updateConfig.simps retire_measured[OF assms] u_beforeInit_def option.case)
next
  case (Some s3)
  from after_measured[OF Some] have "u_afterInit n E s3 = Done s3" by blast
  with Some show ?thesis
    by (simp only: updateConfig.simps retire_measured[OF assms] u_beforeInit_def option.case)
qed

lemma constructor_start:
  "constructor n E cfg =
     (case u_init E (start E cfg) of None \<Rightarrow> Threw | Some s \<Rightarrow> u_afterInit n E s)"
  by (simp add: constructor_def u_beforeInit_def)

lemma auto_pass:
  assumes i: "u_init E (start E cfg) = Some s1"
    and rp: "resolved_padding s1 = Some (JStr ''auto'')"
  shows "constructor (Suc n) E cfg \<noteq> OutOfFuel \<and>
         constructor (Suc n) E cfg = constructor 1 E cfg \<and>
         (\<forall>s. constructor 0 E cfg \<noteq> Done s) \<and>
         (\<forall>s. constructor (Suc n) E cfg = Done s \<longrightarrow>
            (\<exists>v v1 M. plot s1 = Some v1 \<and> retired s = [v] \<and> v_renders v = [JBool False] \<and>
               v_destroyed v \<and> v_padding v = v_padding v1 \<and>
               resolved_padding s = Some (JArr M) \<and> u_afterInit 0 E s = Done s))"
proof -
  from u_init_frame[OF i] obtain v1 where
    f: "retired s1 = []" "plot s1 = Some v1" "v_renders v1 = []"
    by (auto simp: start_def)
  show ?thesis
  proof (cases "read (own (config s1) ''theme'') ''defaultPadding''")
    case None
    with i rp f show ?thesis by (simp add: constructor_start)
  next
    case (Some dp)
    let ?v = "view_render (JBool False) v1"
    let ?s = "s1\<lparr>plot := Some ?v\<rparr>"
    let ?M = "getAutoPadding E ?v (paddingComponents s1) dp"
    have p: "plot ?s = Some ?v" by simp
    have c: "constructor (Suc m) E cfg =
               (case u_init E (after_retire E ?M ?v ?s) of None \<Rightarrow> Threw | Some s3 \<Rightarrow> Done s3)" for m
      using i rp f Some measured_update[OF p, of m E ?M]
      by (simp add: constructor_start Let_def)
    have z: "constructor 0 E cfg = OutOfFuel"
      using i rp f Some by (simp add: constructor_start Let_def)
    show ?thesis
    proof (cases "u_init E (after_retire E ?M ?v ?s)")
      case None
      have "constructor (Suc m) E cfg = Threw" for m
        by (simp only: c None option.case)
      from this[of n] this[of 0] z show ?thesis by simp
    next
      case (Some s3)
      have d: "constructor (Suc m) E cfg = Done s3" for m
        by (simp only: c Some option.case)
      from after_measured[OF Some, where n=0] f(1)
      have a: "retired s3 = [unbound ?s ?v]" "resolved_padding s3 = Some (JArr ?M)"
        "u_afterInit 0 E s3 = Done s3"
        by simp_all
      have b: "v_renders (unbound ?s ?v) = [JBool False]" "v_destroyed (unbound ?s ?v)"
        "v_padding (unbound ?s ?v) = v_padding v1"
        using f(3) by (simp_all add: view_destroy_def view_render_def)
      have d1: "constructor 1 E cfg = Done s3"
        using d[of 0] by simp
      show ?thesis
        unfolding d d1 z using a b f(2) by (auto simp del: u_afterInit.simps)
    qed
  qed
qed

text \<open>
  C10.  When the configuration gives \<^verbatim>\<open>"auto"\<close> as its padding, the constructor
  needs exactly one nested call of \<^verbatim>\<open>updateConfig\<close>: with fuel for one call it
  does not run out of fuel, and more fuel does not change its outcome.  When it
  returns an instance, exactly one view has been retired, the provisional one, which
  was built with the zero padding, rendered once with \<^verbatim>\<open>false\<close> and then
  destroyed; the padding in force is the measured tuple, and \<^verbatim>\<open>_afterInit\<close>
  on the instance returns at once, without any call of \<^verbatim>\<open>updateConfig\<close>.
  The same holds, but for the zero padding, whenever the first \<^verbatim>\<open>_afterInit\<close>
  finds the padding \<^verbatim>\<open>"auto"\<close>, also when it comes from the theme; and then
  the constructor returns no instance without the nested call.
\<close>

theorem auto_padding_one_reinit:
  "(own cfg ''padding'' = JStr ''auto'' \<longrightarrow>
      constructor (Suc n) E cfg \<noteq> OutOfFuel \<and>
      constructor (Suc n) E cfg = constructor 1 E cfg \<and>
      (\<forall>s. constructor (Suc n) E cfg = Done s \<longrightarrow>
         (\<exists>v M. retired s = [v] \<and> v_renders v = [JBool False] \<and> v_destroyed v \<and>
            v_padding v = JArr [JNum (Fin 0), JNum (Fin 0), JNum (Fin 0), JNum (Fin 0)] \<and>
            resolved_padding s = Some (JArr M) \<and> u_afterInit 0 E s = Done s))) \<and>
   (\<forall>s1. u_init E (start E cfg) = Some s1 \<and> resolved_padding s1 = Some (JStr ''auto'') \<longrightarrow>
      constructor (Suc n) E cfg \<noteq> OutOfFuel \<and>
      constructor (Suc n) E cfg = constructor 1 E cfg \<and>
      (\<forall>s. constructor 0 E cfg \<noteq> Done s) \<and>
      (\<forall>s. constructor (Suc n) E cfg = Done s \<longrightarrow>
         (\<exists>v M. retired s = [v] \<and> v_renders v = [JBool False] \<and> v_destroyed v \<and>
            resolved_padding s = Some (JArr M) \<and> u_afterInit 0 E s = Done s)))"
proof -
  have A: "constructor (Suc n) E cfg \<noteq> OutOfFuel \<and>
      constructor (Suc n) E cfg = constructor 1 E cfg \<and>
      (\<forall>s. constructor (Suc n) E cfg = Done s \<longrightarrow>
         (\<exists>v M. retired s = [v] \<and> v_renders v = [JBool False] \<and> v_destroyed v \<and>
            v_padding v = JArr [JNum (Fin 0), JNum (Fin 0), JNum (Fin 0), JNum (Fin 0)] \<and>
            resolved_padding s = Some (JArr M) \<and> u_afterInit 0 E s = Done s))"
    if a: "own cfg ''padding'' = JStr ''auto''"
  proof (cases "u_init E (start E cfg)")
    case None
    then show ?thesis by (simp add: constructor_start)
  next
    case (Some s1)
    from u_init_frame[OF Some] have f: "initialProps s1 = cfg"
      by (simp add: start_def)
    from u_init_padding[OF Some] a
    have vp: "\<exists>v1. plot s1 = Some v1 \<and>
                v_padding v1 = JArr [JNum (Fin 0), JNum (Fin 0), JNum (Fin 0), JNum (Fin 0)]"
      by (simp add: start_def)
    have rp: "resolved_padding s1 = Some (JStr ''auto'')"
      using resolved_padding_explicit[OF _ f] a by simp
    from auto_pass[OF Some rp, of n] vp show ?thesis
      by (auto simp del: u_afterInit.simps)
  qed
  have B: "constructor (Suc n) E cfg \<noteq> OutOfFuel \<and>
      constructor (Suc n) E cfg = constructor 1 E cfg \<and>
      (\<forall>s. constructor 0 E cfg \<noteq> Done s) \<and>
      (\<forall>s. constructor (Suc n) E cfg = Done s \<longrightarrow>
         (\<exists>v M. retired s = [v] \<and> v_renders v = [JBool False] \<and> v_destroyed v \<and>
            resolved_padding s = Some (JArr M) \<and> u_afterInit 0 E s = Done s))"
    if b: "u_init E (start E cfg) = Some s1" "resolved_padding s1 = Some (JStr ''auto'')" for s1
    using auto_pass[OF b, of n] by (auto simp del: u_afterInit.simps)
  from A B show ?thesis by blast
qed

section \<open>The event bindings\<close>














section \<open>Instances that agree on what the methods read\<close>


lemma rel_bind_same:
  "(\<And>x. m = Some x \<Longrightarrow> rel_option Q (f x) (g x)) \<Longrightarrow>
     rel_option Q (Option.bind m f) (Option.bind m g)"
  by (cases m) simp_all



lemma store_theme_block_agree3:
  "chrome_agrees s t \<Longrightarrow> chrome_agrees (store_theme_block k b s) (store_theme_block k b t)"
  by (simp add: store_theme_block_def Let_def)








lemma u_getPanelRange_agree1: "config_agrees s t \<Longrightarrow> u_getPanelRange t = u_getPanelRange s"
  by (simp add: u_getPanelRange_def u_getPadding_def resolved_padding_def cong: if_cong)


lemma mix_theme_block_agree:
  assumes "chrome_agrees s t"
  shows "rel_option (\<lambda>a b. fst b = fst a \<and> chrome_agrees (snd a) (snd b))
           (mix_theme_block k st s) (mix_theme_block k st t)"
  using assms unfolding mix_theme_block_def
  by (auto simp: store_theme_block_def Let_def intro!: rel_bind_same)













lemmas model_defs =
  constructor_def start_def u_beforeInit_def u_init_def init_panel_def init_chrome_def
  init_g2config_def init_hooks_def init_view_def u_getPanelRange_def u_getPadding_def resolved_padding_def
  u_title_def u_description_def u_getViewMargin_def united_margin_def chrome_boxes_def
  union_box_def u_tooltip_def u_legend_def u_setConfig_def u_events_def bind_event_def
  onEvent_def meta_scales_def mapValues_def get_def mix_def deepMix_def deepMix_into_def
  store_theme_block_def mix_theme_block_def run_hook_def new_view_def initial_config_def
  retire_def view_on_def view_off_def view_render_def view_destroy_def view_changeData_def
  TextDescription_def td_destory_def getBBox_def BBox_def bbox_val_def set_prop_def
  js_add_def js_sub_def num_sub_def MAX_MIX_LEVEL_def demoEnv_def demoTheme_def Let_def

lemma demoCfg_built: "\<exists>s. constructor 1 demoEnv demoCfg = Done s"
  by (simp add: model_defs demoCfg_def)

theorem auto_padding_one_reinit_witness:
  "own demoCfg ''padding'' = JStr ''auto'' \<and>
   (\<exists>s v M. constructor 3 demoEnv demoCfg = Done s \<and> retired s = [v] \<and>
      resolved_padding s = Some (JArr M))"
proof -
  have a: "own demoCfg ''padding'' = JStr ''auto''"
    by (simp add: demoCfg_def)
  from demoCfg_built obtain s where s: "constructor 1 demoEnv demoCfg = Done s" by blast
  from auto_padding_one_reinit [of demoCfg 2 demoEnv] s a show ?thesis
    by (auto simp: numeral_3_eq_3 simp del: u_afterInit.simps)
qed






end
